theory Spec2Isabelle
  imports Main "HOL-Library.Word"
begin

section \<open>Preliminaries: thrown values, fallible stateful computations, JSON values\<close>

text \<open>
  A value thrown by the TypeScript code: an \<open>Error\<close> instance, given by its
  \<open>message\<close>; a \<open>TypeError\<close>, the \<open>Error\<close> subclass that the engine itself raises
  when a property is read from \<open>undefined\<close> or \<open>null\<close> or when an object cannot be
  turned into a string, given by its \<open>message\<close> as well; or any other thrown value,
  given by what \<open>String(value)\<close> renders. The sources read a thrown value only through
  \<^verbatim>\<open>error instanceof Error ? error.message : String(error)\<close>.
\<close>

datatype js_error = Error string | TypeError string | Thrown string

fun errorMessage :: "js_error \<Rightarrow> string" where
  "errorMessage (Error m) = m"
| "errorMessage (TypeError m) = m"
| "errorMessage (Thrown s) = s"

text \<open>A name between single quotes, as the engine's messages show it.\<close>

definition quoted :: "string \<Rightarrow> string" where
  "quoted name = [CHR 0x27] @ name @ [CHR 0x27]"

text \<open>
  The engine's messages (V8, the engine of Deno): a member read from \<open>undefined\<close> or
  \<open>null\<close>, and the destructuring of \<open>null\<close>.
\<close>

definition cannotRead :: "string \<Rightarrow> string \<Rightarrow> js_error" where
  "cannotRead base name =
     TypeError (''Cannot read properties of '' @ base @ '' (reading '' @ quoted name @ '')'')"

definition cannotDestructure :: "string \<Rightarrow> string \<Rightarrow> string \<Rightarrow> js_error" where
  "cannotDestructure name source base =
     TypeError (''Cannot destructure property '' @ quoted name @ '' of '' @ quoted source
                @ '' as it is '' @ base @ ''.'')"

text \<open>
  An \<open>async\<close> function that is awaited at every call site is a computation over the
  mutable state it can reach: it ends by returning (\<open>Inr\<close>) or by throwing (\<open>Inl\<close>),
  and leaves a state behind in both cases.
\<close>

type_synonym ('s, 'a) act = "'s \<Rightarrow> (js_error + 'a) \<times> 's"

definition succeed :: "'a \<Rightarrow> ('s, 'a) act" where
  "succeed x = (\<lambda>s. (Inr x, s))"

definition throw :: "js_error \<Rightarrow> ('s, 'a) act" where
  "throw e = (\<lambda>s. (Inl e, s))"

definition andThen :: "('s, 'a) act \<Rightarrow> ('a \<Rightarrow> ('s, 'b) act) \<Rightarrow> ('s, 'b) act" where
  "andThen m f = (\<lambda>s. case m s of (Inl e, s') \<Rightarrow> (Inl e, s') | (Inr x, s') \<Rightarrow> f x s')"

definition tryCatch :: "('s, 'a) act \<Rightarrow> (js_error \<Rightarrow> ('s, 'a) act) \<Rightarrow> ('s, 'a) act" where
  "tryCatch m h = (\<lambda>s. case m s of (Inl e, s') \<Rightarrow> h e s' | (Inr x, s') \<Rightarrow> (Inr x, s'))"

definition tryFinally :: "('s, 'a) act \<Rightarrow> ('s, unit) act \<Rightarrow> ('s, 'a) act" where
  "tryFinally m fin =
     (\<lambda>s. case m s of (r, s') \<Rightarrow>
        (case fin s' of (Inl e, s'') \<Rightarrow> (Inl e, s'') | (Inr _, s'') \<Rightarrow> (r, s'')))"

definition modify :: "('s \<Rightarrow> 's) \<Rightarrow> ('s, unit) act" where
  "modify f = (\<lambda>s. (Inr (), f s))"

definition liftResult :: "js_error + 'a \<Rightarrow> ('s, 'a) act" where
  "liftResult r = (\<lambda>s. (r, s))"

text \<open>
  What \<open>JSON.parse\<close> yields. A number is an IEEE double: \<open>Finite negative mantissa
  exponent\<close> stands for the double of sign \<open>negative\<close> and magnitude
  \<open>mantissa * 2 ^ exponent\<close> (negative zero included), and a literal beyond the range of
  the doubles is read as an infinity. \<open>NaN\<close> does not arise from a JSON text.
\<close>

datatype number = Finite bool nat int | Infinity bool

datatype json =
    JNull
  | JBool bool
  | JNum number
  | JStr string
  | JArr "json list"
  | JObj "(string \<times> json) list"


section \<open>The control protocol (main.ts, types.ts)\<close>

subsection \<open>Messages\<close>

text \<open>\<^verbatim>\<open>id?: string | number | null\<close> of \<open>JSONRPCRequest\<close>.\<close>

datatype rpc_id = IdAbsent | IdNull | IdNum int | IdStr string

record JSONRPCRequest =
  req_method :: string
  req_params :: "json option"
  req_id :: rpc_id

record JSONRPCError =
  err_code :: int
  err_message :: string
  err_data :: "json option"

record JSONRPCResponse =
  resp_result :: "json option"
  resp_error :: "JSONRPCError option"
  resp_id :: rpc_id

text \<open>The \<open>ErrorCodes\<close> table of types.ts.\<close>

definition PARSE_ERROR :: int where "PARSE_ERROR = - 32700"
definition INVALID_REQUEST :: int where "INVALID_REQUEST = - 32600"
definition METHOD_NOT_FOUND :: int where "METHOD_NOT_FOUND = - 32601"
definition INVALID_PARAMS :: int where "INVALID_PARAMS = - 32602"
definition INTERNAL_ERROR :: int where "INTERNAL_ERROR = - 32603"

text \<open>
  One line written to standard output by \<open>console.log(JSON.stringify(...))\<close>: a
  response (from \<open>sendResponse\<close>) or a notification (from \<open>sendNotification\<close>).
\<close>

datatype out_line =
    ResponseLine JSONRPCResponse
  | NotificationLine string "json option"

text \<open>
  The module state of main.ts: the \<open>isShuttingDown\<close> flag, the service wrappers
  (\<open>litWrapper\<close>, \<open>synapseWrapper\<close>; kept abstract in \<open>services\<close>), and the lines
  written to standard output so far.
\<close>

record 'a runtime =
  isShuttingDown :: bool
  services :: 'a
  stdout :: "out_line list"

definition createResponse :: "rpc_id \<Rightarrow> json \<Rightarrow> JSONRPCResponse" where
  "createResponse i r = \<lparr>resp_result = Some r, resp_error = None, resp_id = i\<rparr>"

definition createErrorResponse ::
  "rpc_id \<Rightarrow> int \<Rightarrow> string \<Rightarrow> json option \<Rightarrow> JSONRPCResponse" where
  "createErrorResponse i c m d =
     \<lparr>resp_result = None,
      resp_error = Some \<lparr>err_code = c, err_message = m, err_data = d\<rparr>,
      resp_id = i\<rparr>"

definition sendResponse :: "JSONRPCResponse \<Rightarrow> ('a runtime, unit) act" where
  "sendResponse response = modify (\<lambda>s. s\<lparr>stdout := stdout s @ [ResponseLine response]\<rparr>)"

definition sendNotification :: "string \<Rightarrow> json option \<Rightarrow> ('a runtime, unit) act" where
  "sendNotification m p = modify (\<lambda>s. s\<lparr>stdout := stdout s @ [NotificationLine m p]\<rparr>)"

subsection \<open>Method handlers and the dispatcher\<close>

text \<open>
  A \<open>MethodHandler\<close> is an async function of the parameters. It may read and change
  the module state (\<open>shutdown\<close> sets \<open>isShuttingDown\<close>, \<open>lit.connect\<close> replaces the
  wrapper), it may emit notifications while it runs (the upload and download handlers
  call \<open>sendNotification\<close> from their progress callbacks; no handler calls
  \<open>sendResponse\<close>), and it ends by returning a result or by throwing. A result is a
  JSON value, which \<open>JSON.stringify\<close> renders without throwing.
\<close>

type_synonym 'a MethodHandler =
  "json option \<Rightarrow> bool \<times> 'a \<Rightarrow> (js_error + json) \<times> (string \<times> json option) list \<times> (bool \<times> 'a)"

type_synonym 'a MethodRegistry = "string \<Rightarrow> 'a MethodHandler option"

definition ping :: "'a MethodHandler" where
  "ping params g = (Inr (JStr ''pong''), [], g)"

definition runHandler :: "'a MethodHandler \<Rightarrow> json option \<Rightarrow> ('a runtime, json) act" where
  "runHandler handler params =
     (\<lambda>s. case handler params (isShuttingDown s, services s) of
        (r, notes, (down, sv)) \<Rightarrow>
          (r, s\<lparr>isShuttingDown := down, services := sv,
                stdout := stdout s @ map (\<lambda>(m, p). NotificationLine m p) notes\<rparr>))"

definition isNotification :: "rpc_id \<Rightarrow> bool" where
  "isNotification i = (i = IdAbsent \<or> i = IdNull)"

text \<open>
  The argument of \<open>handleRequest\<close> is what \<open>JSON.parse\<close> returned, cast to
  \<open>JSONRPCRequest\<close>. The first statement destructures it, before the \<open>try\<close>: of the
  JSON value \<open>null\<close> (\<open>None\<close> here) the destructuring throws a \<open>TypeError\<close>; of any other
  value it reads the three members (absent ones as \<open>undefined\<close>; a method that is absent
  is looked up, and shown, under the name \<open>undefined\<close>).
\<close>

definition handleRequest ::
  "'a MethodRegistry \<Rightarrow> JSONRPCRequest option \<Rightarrow> ('a runtime, unit) act" where
  "handleRequest methods request =
     (case request of
        None \<Rightarrow> throw (cannotDestructure ''method'' ''request'' ''null'')
      | Some r \<Rightarrow>
          (let method = req_method r; params = req_params r; id = req_id r
           in tryCatch
                (case methods method of
                   None \<Rightarrow>
                     (if isNotification id then succeed ()
                      else sendResponse
                             (createErrorResponse id METHOD_NOT_FOUND
                                (''Method not found: '' @ method) None))
                 | Some handler \<Rightarrow>
                     andThen (runHandler handler params)
                       (\<lambda>result.
                          if isNotification id then succeed ()
                          else sendResponse (createResponse id result)))
                (\<lambda>error.
                   if isNotification id then succeed ()
                   else sendResponse
                          (createErrorResponse id INTERNAL_ERROR (errorMessage error) None))))"

subsection \<open>The main loop\<close>

text \<open>
  \<open>JSON.parse(line) as JSONRPCRequest\<close>: the text is not JSON (a \<open>SyntaxError\<close>, an
  \<open>Error\<close> with a message), or it is JSON and the value is handed to \<open>handleRequest\<close>:
  the literal \<open>null\<close> (\<open>Parsed None\<close>) or a request. \<open>JSON.parse\<close> is the platform's, so it
  is a parameter of the loop.
\<close>

datatype parsed = SyntaxError string | Parsed "JSONRPCRequest option"

fun indexOf :: "'a \<Rightarrow> 'a list \<Rightarrow> nat option" where
  "indexOf c [] = None"
| "indexOf c (x # xs) = (if x = c then Some 0 else map_option Suc (indexOf c xs))"

lemma indexOf_less: "indexOf c xs = Some i \<Longrightarrow> i < length xs"
  by (induction xs arbitrary: i) (auto split: if_splits)

definition newline :: char where
  "newline = CHR 0x0A"

text \<open>
  \<open>String.prototype.trim\<close> strips white space and line terminators from both ends. A
  character here is a code unit below 256; of those, the ones that \<open>trim\<close> strips are
  tab, line feed, vertical tab, form feed, carriage return, space and the no-break space.
\<close>

definition isWhiteSpace :: "char \<Rightarrow> bool" where
  "isWhiteSpace c =
     (c \<in> set [CHR 0x09, CHR 0x0A, CHR 0x0B, CHR 0x0C, CHR 0x0D, CHR 0x20, CHR 0xA0])"

definition trim :: "string \<Rightarrow> string" where
  "trim s = rev (dropWhile isWhiteSpace (rev (dropWhile isWhiteSpace s)))"

text \<open>The body of the loop for one non-empty trimmed line: the inner \<open>try\<close>/\<open>catch\<close>.\<close>

definition processLine ::
  "(string \<Rightarrow> parsed) \<Rightarrow> 'a MethodRegistry \<Rightarrow> string \<Rightarrow> ('a runtime, unit) act" where
  "processLine parse methods line =
     tryCatch
       (case parse line of
          SyntaxError m \<Rightarrow> throw (Error m)
        | Parsed request \<Rightarrow> handleRequest methods request)
       (\<lambda>parseError.
          sendResponse
            (createErrorResponse IdNull PARSE_ERROR ''Parse error''
               (Some (JStr (errorMessage parseError)))))"

text \<open>
  The inner \<open>while\<close>: as long as the buffer holds a newline, cut the first line off,
  trim it, skip it when empty, process it otherwise. It returns the rest of the buffer.
\<close>

function processBuffer ::
  "(string \<Rightarrow> parsed) \<Rightarrow> 'a MethodRegistry \<Rightarrow> string \<Rightarrow> ('a runtime, string) act" where
  "processBuffer parse methods buffer s =
     (case indexOf newline buffer of
        None \<Rightarrow> (Inr buffer, s)
      | Some newlineIndex \<Rightarrow>
          (let line = trim (take newlineIndex buffer);
               buffer' = drop (newlineIndex + 1) buffer
           in if line = [] then processBuffer parse methods buffer' s
              else (case processLine parse methods line s of
                      (Inl e, s') \<Rightarrow> (Inl e, s')
                    | (Inr _, s') \<Rightarrow> processBuffer parse methods buffer' s')))"
  by pat_completeness auto
termination
  by (relation "measure (\<lambda>(parse, methods, buffer, s). length buffer)")
     (auto simp: less_Suc_eq_le intro: le_imp_less_Suc dest: indexOf_less)

text \<open>
  The outer loop over the chunks that \<open>reader.read()\<close> delivers (\<open>done\<close> when the list
  is exhausted). The text decoder is left out: a chunk is the text it decodes to.
\<close>

fun readLoop ::
  "(string \<Rightarrow> parsed) \<Rightarrow> 'a MethodRegistry \<Rightarrow> string list \<Rightarrow> string \<Rightarrow> ('a runtime, unit) act" where
  "readLoop parse methods [] buffer s = (Inr (), s)"
| "readLoop parse methods (chunk # chunks) buffer s =
     (if isShuttingDown s then (Inr (), s)
      else (case processBuffer parse methods (buffer @ chunk) s of
              (Inl e, s') \<Rightarrow> (Inl e, s')
            | (Inr buffer', s') \<Rightarrow> readLoop parse methods chunks buffer' s'))"

definition VERSION :: string where
  "VERSION = ''1.0.0''"

definition main :: "(string \<Rightarrow> parsed) \<Rightarrow> 'a MethodRegistry \<Rightarrow> string list \<Rightarrow> ('a runtime, unit) act" where
  "main parse methods chunks =
     andThen (sendNotification ''ready'' (Some (JObj [(''version'', JStr VERSION)])))
       (\<lambda>_. readLoop parse methods chunks [])"

subsection \<open>Reference reading of the input: its complete lines, handled one after the other\<close>

text \<open>
  The complete lines of a text are its newline-terminated segments, in order; what
  follows the last newline is the partial line that stays in the buffer.
\<close>

function completeLines :: "string \<Rightarrow> string list" where
  "completeLines input =
     (case indexOf newline input of
        None \<Rightarrow> []
      | Some i \<Rightarrow> take i input # completeLines (drop (i + 1) input))"
  by pat_completeness auto
termination
  by (relation "measure length") (auto dest: indexOf_less)

function partialLine :: "string \<Rightarrow> string" where
  "partialLine input =
     (case indexOf newline input of
        None \<Rightarrow> input
      | Some i \<Rightarrow> partialLine (drop (i + 1) input))"
  by pat_completeness auto
termination
  by (relation "measure length") (auto dest: indexOf_less)

text \<open>
  Strictly sequential handling of a list of lines: each line is trimmed, skipped when
  empty, and otherwise processed to completion from the state its predecessor left.
\<close>

fun processLines ::
  "(string \<Rightarrow> parsed) \<Rightarrow> 'a MethodRegistry \<Rightarrow> string list \<Rightarrow> 'a runtime \<Rightarrow> 'a runtime" where
  "processLines parse methods [] s = s"
| "processLines parse methods (l # ls) s =
     (if trim l = [] then processLines parse methods ls s
      else processLines parse methods ls (snd (processLine parse methods (trim l) s)))"


section \<open>Values: template strings, members, truthiness\<close>

text \<open>The decimal digits of a natural number, as a template string renders it.\<close>

fun showNat :: "nat \<Rightarrow> string" where
  "showNat n =
     (if n < 10 then [''0123456789'' ! n]
      else showNat (n div 10) @ [''0123456789'' ! (n mod 10)])"

text \<open>
  \<open>String(value)\<close> of a parsed JSON value, which is also what a template string does
  with it. The digits of a double are the engine's (\<open>Number.prototype.toString\<close>, the
  parameter \<open>numberToString\<close>). An array joins its elements with commas, in order,
  rendering \<open>null\<close> elements as empty and every other element by \<open>String\<close>. An object is
  converted by its \<open>toString\<close> method, then by its \<open>valueOf\<close> method: without a member of
  its own named \<open>toString\<close> the inherited method gives \<open>[object Object]\<close>; with one, which
  as a JSON value is not callable, only \<open>valueOf\<close> is left, which is not callable either
  or is the inherited one and returns the object, and the conversion throws a
  \<open>TypeError\<close>.
\<close>

fun jsString :: "(number \<Rightarrow> string) \<Rightarrow> json \<Rightarrow> js_error + string"
and joinElements :: "(number \<Rightarrow> string) \<Rightarrow> json list \<Rightarrow> js_error + string" where
  "jsString numberToString JNull = Inr ''null''"
| "jsString numberToString (JBool b) = Inr (if b then ''true'' else ''false'')"
| "jsString numberToString (JNum n) = Inr (numberToString n)"
| "jsString numberToString (JStr s) = Inr s"
| "jsString numberToString (JArr xs) = joinElements numberToString xs"
| "jsString numberToString (JObj members) =
     (case map_of members ''toString'' of
        None \<Rightarrow> Inr ''[object Object]''
      | Some v \<Rightarrow> Inl (TypeError ''Cannot convert object to primitive value''))"
| "joinElements numberToString [] = Inr []"
| "joinElements numberToString (x # xs) =
     (case (if x = JNull then Inr [] else jsString numberToString x) of
        Inl e \<Rightarrow> Inl e
      | Inr shown \<Rightarrow>
          (if xs = [] then Inr shown
           else (case joinElements numberToString xs of
                   Inl e \<Rightarrow> Inl e
                 | Inr rest \<Rightarrow> Inr (shown @ '','' @ rest))))"

text \<open>A property read yields a value or \<open>undefined\<close> (\<open>None\<close>).\<close>

definition templateString :: "(number \<Rightarrow> string) \<Rightarrow> json option \<Rightarrow> js_error + string" where
  "templateString numberToString v =
     (case v of None \<Rightarrow> Inr ''undefined'' | Some x \<Rightarrow> jsString numberToString x)"

text \<open>
  \<open>value.name\<close>, for the member names that this code reads from the parameters of a
  request and from parsed metadata, none of which a prototype defines: a \<open>TypeError\<close> on
  \<open>undefined\<close> and on \<open>null\<close>; the member of an object (of the members with one name the
  last one counts, as in \<open>JSON.parse\<close>); \<open>undefined\<close> on a member that is missing and on
  every value that is not an object.
\<close>

definition memberOf :: "json \<Rightarrow> string \<Rightarrow> json option" where
  "memberOf v name = (case v of JObj members \<Rightarrow> map_of (rev members) name | _ \<Rightarrow> None)"

definition getProperty :: "json option \<Rightarrow> string \<Rightarrow> js_error + json option" where
  "getProperty v name =
     (case v of
        None \<Rightarrow> Inl (cannotRead ''undefined'' name)
      | Some x \<Rightarrow> if x = JNull then Inl (cannotRead ''null'' name) else Inr (memberOf x name))"

text \<open>
  \<open>!value\<close> is false exactly on a truthy value. Of the numbers of a JSON text the two
  zeros are falsy.
\<close>

definition truthy :: "json option \<Rightarrow> bool" where
  "truthy v =
     (case v of
        None \<Rightarrow> False
      | Some JNull \<Rightarrow> False
      | Some (JBool b) \<Rightarrow> b
      | Some (JNum (Finite negative mantissa exponent)) \<Rightarrow> mantissa \<noteq> 0
      | Some (JNum (Infinity negative)) \<Rightarrow> True
      | Some (JStr s) \<Rightarrow> s \<noteq> []
      | Some (JArr xs) \<Rightarrow> True
      | Some (JObj members) \<Rightarrow> True)"

text \<open>\<open>value ?? fallback\<close>: the fallback stands in for \<open>undefined\<close> and for \<open>null\<close>.\<close>

definition coalesce :: "json option \<Rightarrow> json \<Rightarrow> json" where
  "coalesce v fallback =
     (case v of None \<Rightarrow> fallback | Some x \<Rightarrow> if x = JNull then fallback else x)"

text \<open>
  \<open>console.error\<close> of a template string that shows a value. The line goes to standard
  error, which is left out; what remains is that the rendering of the value can throw.
\<close>

definition logTemplate :: "(number \<Rightarrow> string) \<Rightarrow> json \<Rightarrow> ('s, unit) act" where
  "logTemplate numberToString v =
     (case jsString numberToString v of Inl e \<Rightarrow> throw e | Inr shown \<Rightarrow> succeed ())"


section \<open>The storage wrapper (synapse-wrapper.ts): CID validation and download\<close>

subsection \<open>The regular expression of \<open>isValidCid\<close>\<close>

text \<open>
  The fragment of regular expressions that
  \<^verbatim>\<open>/^(Qm[1-9A-HJ-NP-Za-km-z]{44}|baf[a-z2-7]{55,})$/\<close> uses: a literal, a character
  class given by its ranges and repeated between a lower and an optional upper bound, a
  sequence, an alternative. \<open>matchPrefix r s\<close> lists what is left of \<open>s\<close> after each way
  of matching \<open>r\<close> at its start, longest repetition first as a backtracking matcher
  tries them. A test of \<^verbatim>\<open>^r$\<close> succeeds when some way leaves nothing.
\<close>

datatype regex =
    Lit string
  | Class "(char \<times> char) list" nat "nat option"
  | Seq regex regex
  | Alt regex regex

definition inClass :: "(char \<times> char) list \<Rightarrow> char \<Rightarrow> bool" where
  "inClass ranges c =
     list_ex (\<lambda>(lo, hi). (of_char lo :: nat) \<le> of_char c \<and> (of_char c :: nat) \<le> of_char hi) ranges"

fun matchPrefix :: "regex \<Rightarrow> string \<Rightarrow> string list" where
  "matchPrefix (Lit w) s = (if take (length w) s = w then [drop (length w) s] else [])"
| "matchPrefix (Class ranges lo hi) s =
     (let n = length (takeWhile (inClass ranges) s);
          m = (case hi of None \<Rightarrow> n | Some h \<Rightarrow> min h n)
      in map (\<lambda>k. drop k s) (rev [lo..<Suc m]))"
| "matchPrefix (Seq a b) s = concat (map (matchPrefix b) (matchPrefix a s))"
| "matchPrefix (Alt a b) s = matchPrefix a s @ matchPrefix b s"

definition regexTest :: "regex \<Rightarrow> string \<Rightarrow> bool" where
  "regexTest r s = ([] \<in> set (matchPrefix r s))"

text \<open>\<^verbatim>\<open>[1-9A-HJ-NP-Za-km-z]\<close> and \<^verbatim>\<open>[a-z2-7]\<close>.\<close>

definition base58Class :: "(char \<times> char) list" where
  "base58Class = [(CHR ''1'', CHR ''9''), (CHR ''A'', CHR ''H''), (CHR ''J'', CHR ''N''),
                  (CHR ''P'', CHR ''Z''), (CHR ''a'', CHR ''k''), (CHR ''m'', CHR ''z'')]"

definition base32Class :: "(char \<times> char) list" where
  "base32Class = [(CHR ''a'', CHR ''z''), (CHR ''2'', CHR ''7'')]"

definition isValidCid :: "string \<Rightarrow> bool" where
  "isValidCid cid =
     regexTest (Alt (Seq (Lit ''Qm'') (Class base58Class 44 (Some 44)))
                    (Seq (Lit ''baf'') (Class base32Class 55 None))) cid"

text \<open>
  The two alphabets the shapes are described by: the base58 alphabet (the digits and
  letters without \<open>0\<close>, \<open>O\<close>, \<open>I\<close> and \<open>l\<close>) and the lower-case base32 alphabet.
\<close>

definition base58Alphabet :: string where
  "base58Alphabet = ''123456789ABCDEFGHJKLMNPQRSTUVWXYZabcdefghijkmnopqrstuvwxyz''"

definition base32Alphabet :: string where
  "base32Alphabet = ''abcdefghijklmnopqrstuvwxyz234567''"

subsection \<open>\<open>SynapseWrapperImpl.download\<close>\<close>

type_synonym byte = "8 word"

text \<open>
  The wrapper's state is its \<open>_isConnected\<close> flag; the URLs passed to \<open>fetch\<close> and the files
  written are recorded beside it. The path of a file is the \<open>outputPath\<close> value of the
  request, whatever its type.
\<close>

record SynapseDownloadResult =
  dl_success :: bool
  dl_size :: nat
  dl_result_cid :: string
  dl_result_outputPath :: json

record synapse =
  synapse_isConnected :: bool
  gateway_requests :: "string list"
  files_written :: "(json \<times> byte list) list"

text \<open>
  The loop over the gateways. \<open>fetchBody\<close> stands for a gateway request read to its end
  (the \<open>fetch\<close>, the status and body checks, the chunks joined), \<open>writeFile\<close> for
  \<open>Deno.writeFile\<close>; both are the platform's and may throw. Any error inside the \<open>try\<close>
  is kept as \<open>lastError\<close> and the next gateway is tried. The progress callback only
  observes and is left out.
\<close>

fun tryGateways ::
  "(string \<Rightarrow> js_error + byte list) \<Rightarrow> (json \<Rightarrow> byte list \<Rightarrow> js_error + unit) \<Rightarrow>
   string \<Rightarrow> json \<Rightarrow> string list \<Rightarrow> js_error option \<Rightarrow> (synapse, SynapseDownloadResult) act" where
  "tryGateways fetchBody writeFile cid outputPath [] lastError s =
     (Inl (Error (''Failed to download from all gateways. Last error: '' @
                  (case lastError of None \<Rightarrow> ''undefined'' | Some e \<Rightarrow> errorMessage e))), s)"
| "tryGateways fetchBody writeFile cid outputPath (gateway # gateways) lastError s =
     (let s1 = s\<lparr>gateway_requests := gateway_requests s @ [gateway]\<rparr> in
      case fetchBody gateway of
        Inl e \<Rightarrow> tryGateways fetchBody writeFile cid outputPath gateways (Some e) s1
      | Inr data \<Rightarrow>
          (case writeFile outputPath data of
             Inl e \<Rightarrow> tryGateways fetchBody writeFile cid outputPath gateways (Some e) s1
           | Inr _ \<Rightarrow>
               (Inr \<lparr>dl_success = True, dl_size = length data,
                      dl_result_cid = cid, dl_result_outputPath = outputPath\<rparr>,
                s1\<lparr>files_written := files_written s1 @ [(outputPath, data)]\<rparr>)))"

text \<open>
  \<open>let { cid, outputPath } = downloadParams\<close>: the value that is destructured, or the
  \<open>TypeError\<close> that \<open>undefined\<close> and \<open>null\<close> raise.
\<close>

definition destructure :: "json option \<Rightarrow> string \<Rightarrow> string \<Rightarrow> js_error + json" where
  "destructure v name source =
     (case v of
        None \<Rightarrow> Inl (cannotDestructure name source ''undefined'')
      | Some x \<Rightarrow> if x = JNull then Inl (cannotDestructure name source ''null'') else Inr x)"

text \<open>
  \<open>download\<close>. Its \<open>params\<close> is the \<open>params\<close> member of the request as the handler of
  main.ts passes it on (\<open>undefined\<close> when the request has none), cast to the parameter
  record without a check, so the two members are JSON values of any type. In the order
  of the code: the connection guard; the destructuring; the guards \<open>!cid\<close> and
  \<open>!outputPath\<close>, which hold of an absent member and of every falsy value; \<open>cid.trim()\<close>,
  which only a string has; the validation of the trimmed cid; and then the gateways.
\<close>

definition download ::
  "(string \<Rightarrow> js_error + byte list) \<Rightarrow> (json \<Rightarrow> byte list \<Rightarrow> js_error + unit) \<Rightarrow>
   json option \<Rightarrow> (synapse, SynapseDownloadResult) act" where
  "download fetchBody writeFile params =
     (\<lambda>s. if \<not> synapse_isConnected s then throw (Error ''Synapse not connected'') s
          else (case destructure params ''cid'' ''downloadParams'' of
                  Inl typeError \<Rightarrow> throw typeError s
                | Inr downloadParams \<Rightarrow>
                    (case memberOf downloadParams ''cid'' of
                       None \<Rightarrow> throw (Error ''Missing required parameter: cid'') s
                     | Some cidValue \<Rightarrow>
                         if \<not> truthy (Some cidValue)
                         then throw (Error ''Missing required parameter: cid'') s
                         else (case memberOf downloadParams ''outputPath'' of
                                 None \<Rightarrow> throw (Error ''Missing required parameter: outputPath'') s
                               | Some outputPath \<Rightarrow>
                                   if \<not> truthy (Some outputPath)
                                   then throw (Error ''Missing required parameter: outputPath'') s
                                   else (case cidValue of
                                           JStr cid0 \<Rightarrow>
                                             (let cid = trim cid0 in
                                              if \<not> isValidCid cid
                                              then throw (Error (''Invalid CID format: '' @ cid)) s
                                              else tryGateways fetchBody writeFile cid outputPath
                                                     [''https://ipfs.io/ipfs/'' @ cid,
                                                      ''https://gateway.ipfs.io/ipfs/'' @ cid,
                                                      ''https://dweb.link/ipfs/'' @ cid]
                                                     None s)
                                         | _ \<Rightarrow> throw (TypeError ''cid.trim is not a function'') s)))))"


section \<open>Hybrid encryption (hybrid-crypto.ts, viem-adapter.ts)\<close>

subsection \<open>Types\<close>

text \<open>
  Handles of the network SDK (the Lit client, its auth manager, an auth context, a viem
  account) are opaque to this code; they are numbered.
\<close>

type_synonym LitClient = nat
type_synonym AuthManager = nat
type_synonym AuthContext = nat
type_synonym Account = nat

record EvmBasicAccessControlCondition =
  contractAddress :: string
  standardContractType :: string
  acc_chain :: string
  acc_method :: string
  acc_parameters :: "string list"
  returnValueTest_comparator :: string
  returnValueTest_value :: string

record UnifiedAccessControlCondition = EvmBasicAccessControlCondition +
  conditionType :: string

record HybridEncryptionMetadata =
  version :: string
  encryptedKey :: string
  keyHash :: string
  iv :: string
  algorithm :: string
  keyLength :: nat
  accessControlConditions :: "EvmBasicAccessControlCondition list"
  chain :: string
  originalMimeType :: "string option"
  originalSize :: "nat option"
  originalHash :: "string option"

text \<open>A call that reaches the network SDK, as recorded in the order made.\<close>

datatype adapter_call =
    CallCreateLitClient
  | CallEncrypt LitClient "byte list" "UnifiedAccessControlCondition list" string
  | CallEncryptRequest LitClient "byte list" json json
  | CallDecrypt LitClient string string "UnifiedAccessControlCondition list" AuthContext string
  | CallDisconnect LitClient

text \<open>
  What this code takes from the platform and from the SDKs: Web Crypto
  (\<open>getRandomValues\<close>, \<open>importKey\<close>, AES-GCM \<open>encrypt\<close> and \<open>decrypt\<close> under an imported
  key, the SHA-256 \<open>digest\<close>), \<open>btoa\<close> and \<open>atob\<close> on binary strings, \<open>TextEncoder\<close>,
  \<open>JSON.stringify\<close> of a JSON value, the address of an \<open>ethers.Wallet\<close>, viem's
  \<open>privateKeyToAccount\<close>, and the Lit SDK (client and auth-manager creation, the auth
  context of an account, \<open>encrypt\<close>, \<open>decrypt\<close>, \<open>disconnect\<close>). The SDK's \<open>encrypt\<close> is
  called from two places: by hybrid-crypto.ts with the policy it has built
  (\<open>lit_encrypt\<close>), and by lit-wrapper.ts with the policy and chain values of a request,
  which are JSON values of any type (\<open>lit_encrypt_request\<close>). A call that can throw
  returns a sum.
  A platform fixes the outcomes of one run: \<open>getRandomValues n\<close> is what the draw of \<open>n\<close>
  random bytes yields in it (an encryption draws 32 bytes once and 12 bytes once).
\<close>

record platform =
  getRandomValues :: "nat \<Rightarrow> byte list"
  importKey :: "byte list \<Rightarrow> js_error + byte list"
  subtle_encrypt :: "byte list \<Rightarrow> byte list \<Rightarrow> byte list \<Rightarrow> js_error + byte list"
  subtle_decrypt :: "byte list \<Rightarrow> byte list \<Rightarrow> byte list \<Rightarrow> js_error + byte list"
  subtle_digest :: "byte list \<Rightarrow> byte list"
  btoa :: "string \<Rightarrow> string"
  atob :: "string \<Rightarrow> js_error + string"
  textEncode :: "string \<Rightarrow> byte list"
  json_stringify :: "json \<Rightarrow> string"
  walletAddress :: "string \<Rightarrow> js_error + string"
  privateKeyToAccount :: "string \<Rightarrow> js_error + Account"
  createLitClient :: "js_error + LitClient"
  createAuthManager :: "js_error + AuthManager"
  createEoaAuthContext :: "AuthManager \<Rightarrow> Account \<Rightarrow> LitClient \<Rightarrow> js_error + AuthContext"
  lit_encrypt ::
    "LitClient \<Rightarrow> byte list \<Rightarrow> UnifiedAccessControlCondition list \<Rightarrow> string \<Rightarrow>
     js_error + string \<times> string"
  lit_encrypt_request ::
    "LitClient \<Rightarrow> byte list \<Rightarrow> json \<Rightarrow> json \<Rightarrow> js_error + string \<times> string"
  lit_decrypt ::
    "LitClient \<Rightarrow> string \<Rightarrow> string \<Rightarrow> UnifiedAccessControlCondition list \<Rightarrow> AuthContext \<Rightarrow>
     string \<Rightarrow> js_error + byte list"
  lit_disconnect :: "LitClient \<Rightarrow> js_error + unit"

text \<open>
  The module state of hybrid-crypto.ts (\<open>litClient\<close>, \<open>authManager\<close>, \<open>initPromise\<close>; a
  promise is named by a serial number), and beside it what the properties below speak
  about: how many client initializations were started, how many of them have not
  settled yet, the calls made to the SDK, and the contents of the \<open>aesKey\<close> buffer of
  the encrypt or decrypt call that ran last (\<open>None\<close> as long as that call has no key).
\<close>

record crypto_state =
  litClient :: "LitClient option"
  authManager :: "AuthManager option"
  initPromise :: "nat option"
  initStarted :: nat
  initPending :: nat
  adapter_calls :: "adapter_call list"
  aesKeyBuffer :: "byte list option"

subsection \<open>Constants and utility functions\<close>

definition AES_KEY_SIZE :: nat where "AES_KEY_SIZE = 32"
definition AES_IV_SIZE :: nat where "AES_IV_SIZE = 12"
definition AES_AUTH_TAG_SIZE :: nat where "AES_AUTH_TAG_SIZE = 16"

text \<open>
  \<open>String.fromCharCode\<close> of a byte and \<open>charCodeAt\<close> of a character of a binary
  string; the two loops of the base64 helpers are maps of them.
\<close>

definition fromCharCode :: "byte \<Rightarrow> char" where
  "fromCharCode b = char_of (unat b)"

definition charCodeAt :: "char \<Rightarrow> byte" where
  "charCodeAt c = word_of_nat (of_char c)"

definition arrayBufferToBase64 :: "platform \<Rightarrow> byte list \<Rightarrow> string" where
  "arrayBufferToBase64 P bytes = btoa P (map fromCharCode bytes)"

definition base64ToArrayBuffer :: "platform \<Rightarrow> string \<Rightarrow> js_error + byte list" where
  "base64ToArrayBuffer P base64 =
     (case atob P base64 of Inl e \<Rightarrow> Inl e | Inr binary \<Rightarrow> Inr (map charCodeAt binary))"

definition startsWith :: "string \<Rightarrow> string \<Rightarrow> bool" where
  "startsWith s p = (take (length p) s = p)"

definition normalizePrivateKey :: "string \<Rightarrow> string" where
  "normalizePrivateKey privateKey =
     (let trimmed = trim privateKey in
      if startsWith trimmed ''0x'' \<or> startsWith trimmed ''0X'' then trimmed
      else ''0x'' @ trimmed)"

definition getWalletAddressFromPrivateKey :: "platform \<Rightarrow> string \<Rightarrow> js_error + string" where
  "getWalletAddressFromPrivateKey P privateKey = walletAddress P (normalizePrivateKey privateKey)"

text \<open>
  \<open>toLowerCase\<close> on code units below 256: the letters \<open>A\<close> to \<open>Z\<close> and the accented
  capitals from 192 to 222 (215, the multiplication sign, is no letter) move up by 32.
\<close>

definition toLowerCase :: "string \<Rightarrow> string" where
  "toLowerCase s =
     map (\<lambda>c. if ((65 :: nat) \<le> of_char c \<and> of_char c \<le> (90 :: nat))
                \<or> ((192 :: nat) \<le> of_char c \<and> of_char c \<le> (222 :: nat)
                    \<and> of_char c \<noteq> (215 :: nat))
              then char_of (of_char c + (32 :: nat)) else c) s"

definition createOwnerOnlyAccessControlConditions ::
  "string \<Rightarrow> EvmBasicAccessControlCondition list" where
  "createOwnerOnlyAccessControlConditions address =
     [\<lparr>contractAddress = '''', standardContractType = '''', acc_chain = ''ethereum'',
       acc_method = '''', acc_parameters = ['':userAddress''],
       returnValueTest_comparator = ''='', returnValueTest_value = toLowerCase address\<rparr>]"

definition toUnifiedAccessControlConditions ::
  "EvmBasicAccessControlCondition list \<Rightarrow> UnifiedAccessControlCondition list" where
  "toUnifiedAccessControlConditions conditions =
     map (\<lambda>condition. EvmBasicAccessControlCondition.extend condition
                         (UnifiedAccessControlCondition.fields ''evmBasic'')) conditions"

text \<open>\<open>b.toString(16).padStart(2, '0')\<close> for each byte of the digest, joined.\<close>

definition hexDigit :: "nat \<Rightarrow> char" where
  "hexDigit n = (''0123456789abcdef'' ! (n mod 16))"

definition toHex :: "byte list \<Rightarrow> string" where
  "toHex bytes = concat (map (\<lambda>b. [hexDigit (unat b div 16), hexDigit (unat b mod 16)]) bytes)"

definition sha256Hash :: "platform \<Rightarrow> byte list \<Rightarrow> string" where
  "sha256Hash P data = toHex (subtle_digest P data)"

subsection \<open>AES\<close>

definition generateAESKey :: "platform \<Rightarrow> byte list" where
  "generateAESKey P = getRandomValues P AES_KEY_SIZE"

definition generateIV :: "platform \<Rightarrow> byte list" where
  "generateIV P = getRandomValues P AES_IV_SIZE"

definition aesEncrypt :: "platform \<Rightarrow> byte list \<Rightarrow> byte list \<Rightarrow> byte list \<Rightarrow> js_error + byte list" where
  "aesEncrypt P data key nonce =
     (case importKey P key of
        Inl e \<Rightarrow> Inl e
      | Inr cryptoKey \<Rightarrow> subtle_encrypt P cryptoKey nonce data)"

definition aesDecrypt :: "platform \<Rightarrow> byte list \<Rightarrow> byte list \<Rightarrow> byte list \<Rightarrow> js_error + byte list" where
  "aesDecrypt P encryptedData key nonce =
     (case importKey P key of
        Inl e \<Rightarrow> Inl e
      | Inr cryptoKey \<Rightarrow>
          (case subtle_decrypt P cryptoKey nonce encryptedData of
             Inl (Error m) \<Rightarrow>
               Inl (Error (''AES decryption failed: '' @ m @ ''. '' @
                 ''The file may be corrupted, tampered with, or the wrong decryption key is being used.''))
           | Inl (TypeError m) \<Rightarrow>
               Inl (Error (''AES decryption failed: '' @ m @ ''. '' @
                 ''The file may be corrupted, tampered with, or the wrong decryption key is being used.''))
           | Inl (Thrown v) \<Rightarrow> Inl (Thrown v)
           | Inr decrypted \<Rightarrow> Inr decrypted))"

subsection \<open>Lit client management\<close>

text \<open>
  \<open>initLitClient\<close> is an async function with one \<open>await\<close>, on the client creation. A call
  runs up to that point: it returns the existing client, or the promise of the
  initialization in flight, or it starts an initialization (the creation request goes
  out, \<open>initPromise\<close> is set) and returns the new promise. The SDK's \<open>createLitClient\<close>
  is taken to be asynchronous: it fails by rejecting the promise it returns, not by
  throwing before it returns one.
\<close>

datatype init_outcome = Existing LitClient | Joined nat | Started nat

definition initLitClient_call :: "'a crypto_state_scheme \<Rightarrow> init_outcome \<times> 'a crypto_state_scheme" where
  "initLitClient_call w =
     (case (litClient w, authManager w) of
        (Some client, Some manager) \<Rightarrow> (Existing client, w)
      | _ \<Rightarrow>
          (case initPromise w of
             Some p \<Rightarrow> (Joined p, w)
           | None \<Rightarrow>
               (Started (initStarted w),
                w\<lparr>initPromise := Some (initStarted w),
                  initStarted := Suc (initStarted w),
                  initPending := Suc (initPending w),
                  adapter_calls := adapter_calls w @ [CallCreateLitClient]\<rparr>)))"

text \<open>
  The rest of a started initialization runs when the client creation settles, with its
  outcome and with the outcome of the (synchronous) auth-manager creation that follows a
  successful one: the \<open>try\<close> with its \<open>catch\<close> and \<open>finally\<close>.
\<close>

definition initLitClient_resume ::
  "js_error + LitClient \<Rightarrow> js_error + AuthManager \<Rightarrow> ('a crypto_state_scheme, LitClient) act" where
  "initLitClient_resume created manager =
     tryFinally
       (tryCatch
          (andThen (liftResult created)
             (\<lambda>client. andThen (modify (\<lambda>w. w\<lparr>litClient := Some client\<rparr>))
                (\<lambda>_. andThen (liftResult manager)
                   (\<lambda>m. andThen (modify (\<lambda>w. w\<lparr>authManager := Some m\<rparr>))
                      (\<lambda>_. succeed client)))))
          (\<lambda>error. andThen (modify (\<lambda>w. w\<lparr>litClient := None, authManager := None\<rparr>))
             (\<lambda>_. throw error)))
       (modify (\<lambda>w. w\<lparr>initPromise := None, initPending := initPending w - 1\<rparr>))"

text \<open>
  \<open>await initLitClient()\<close> in code that runs to completion: the existing client at once,
  otherwise the result of the initialization in flight (started by this call or joined).
\<close>

definition initLitClient :: "platform \<Rightarrow> ('a crypto_state_scheme, LitClient) act" where
  "initLitClient P =
     (\<lambda>w. case initLitClient_call w of
            (Existing client, w') \<Rightarrow> (Inr client, w')
          | (Joined p, w') \<Rightarrow> initLitClient_resume (createLitClient P) (createAuthManager P) w'
          | (Started p, w') \<Rightarrow> initLitClient_resume (createLitClient P) (createAuthManager P) w')"

text \<open>
  \<open>disconnectLitClient\<close>: an error of the SDK's \<open>disconnect\<close> is logged and dropped.
\<close>

definition disconnectLitClient :: "platform \<Rightarrow> ('a crypto_state_scheme, unit) act" where
  "disconnectLitClient P =
     (\<lambda>w. case litClient w of
            None \<Rightarrow> (Inr (), w)
          | Some client \<Rightarrow>
              andThen
                (tryCatch
                   (\<lambda>w. (lit_disconnect P client,
                         w\<lparr>adapter_calls := adapter_calls w @ [CallDisconnect client]\<rparr>))
                   (\<lambda>error. succeed ()))
                (\<lambda>_. modify (\<lambda>w. w\<lparr>litClient := None, authManager := None, initPromise := None\<rparr>))
                w)"

text \<open>
  A history of \<open>initLitClient\<close> activity: calls, interleaved in any way with the
  settling of the initialization in flight. A settling step needs a started
  initialization that has not settled yet.
\<close>

datatype init_event = CallInit | Settle "js_error + LitClient" "js_error + AuthManager"

fun runInit :: "init_event list \<Rightarrow> 'a crypto_state_scheme \<Rightarrow> 'a crypto_state_scheme option" where
  "runInit [] w = Some w"
| "runInit (CallInit # events) w = runInit events (snd (initLitClient_call w))"
| "runInit (Settle created manager # events) w =
     (if initPending w = 0 then None
      else runInit events (snd (initLitClient_resume created manager w)))"

text \<open>The module state when the module has been loaded.\<close>

definition moduleLoaded :: crypto_state where
  "moduleLoaded =
     \<lparr>litClient = None, authManager = None, initPromise = None, initStarted = 0,
      initPending = 0, adapter_calls = [], aesKeyBuffer = None\<rparr>"

definition isLitClientConnected :: "'a crypto_state_scheme \<Rightarrow> bool" where
  "isLitClientConnected w = (litClient w \<noteq> None \<and> authManager w \<noteq> None)"

definition getLitClient :: "'a crypto_state_scheme \<Rightarrow> LitClient option" where
  "getLitClient w = litClient w"

text \<open>\<open>createViemAccount\<close> of viem-adapter.ts, with its own \<open>normalizePrivateKey\<close>.\<close>

definition normalizePrivateKey_viem :: "string \<Rightarrow> string" where
  "normalizePrivateKey_viem privateKey =
     (let trimmed = trim privateKey in
      if startsWith trimmed ''0x'' then trimmed else ''0x'' @ trimmed)"

definition hexRegex :: regex where
  "hexRegex = Seq (Lit ''0x'')
                  (Class [(CHR ''0'', CHR ''9''), (CHR ''a'', CHR ''f''), (CHR ''A'', CHR ''F'')]
                     64 (Some 64))"

definition createViemAccount :: "platform \<Rightarrow> string \<Rightarrow> js_error + Account" where
  "createViemAccount P privateKey =
     (let normalizedKey = normalizePrivateKey_viem privateKey in
      if length normalizedKey \<noteq> 66
      then Inl (Error (''Invalid private key length. Expected 32 bytes (64 hex characters) with 0x prefix, got ''
                       @ showNat (length normalizedKey) @ '' characters.''))
      else if \<not> regexTest hexRegex normalizedKey
      then Inl (Error ''Invalid private key format. Expected 0x prefix followed by 64 hexadecimal characters.'')
      else privateKeyToAccount P normalizedKey)"

definition getAuthContext :: "platform \<Rightarrow> string \<Rightarrow> string \<Rightarrow> ('a crypto_state_scheme, AuthContext) act" where
  "getAuthContext P privateKey chainName =
     (\<lambda>w. case (litClient w, authManager w) of
            (Some client, Some manager) \<Rightarrow>
              (case createViemAccount P privateKey of
                 Inl e \<Rightarrow> (Inl e, w)
               | Inr viemAccount \<Rightarrow> (createEoaAuthContext P manager viemAccount client, w))
          | _ \<Rightarrow> (Inl (Error ''Lit client not initialized. Call initLitClient() first.''), w))"

subsection \<open>Hybrid encryption and decryption\<close>

definition fill0 :: "byte list \<Rightarrow> byte list" where
  "fill0 buffer = map (\<lambda>_. 0) buffer"

definition client_encrypt ::
  "platform \<Rightarrow> LitClient \<Rightarrow> byte list \<Rightarrow> UnifiedAccessControlCondition list \<Rightarrow> string \<Rightarrow>
   ('a crypto_state_scheme, string \<times> string) act" where
  "client_encrypt P client dataToEncrypt conditions chainName =
     (\<lambda>w. (lit_encrypt P client dataToEncrypt conditions chainName,
           w\<lparr>adapter_calls := adapter_calls w @ [CallEncrypt client dataToEncrypt conditions chainName]\<rparr>))"

definition client_decrypt ::
  "platform \<Rightarrow> LitClient \<Rightarrow> string \<Rightarrow> string \<Rightarrow> UnifiedAccessControlCondition list \<Rightarrow> AuthContext \<Rightarrow>
   string \<Rightarrow> ('a crypto_state_scheme, byte list) act" where
  "client_decrypt P client ciphertext dataHash conditions authContext chainName =
     (\<lambda>w. (lit_decrypt P client ciphertext dataHash conditions authContext chainName,
           w\<lparr>adapter_calls := adapter_calls w @
                [CallDecrypt client ciphertext dataHash conditions authContext chainName]\<rparr>))"

text \<open>
  \<open>hybridEncryptFile\<close>. The progress callback only observes and is left out. The key
  buffer is filled when the key is generated and zeroed by the last statement before the
  \<open>return\<close>; there is no \<open>try\<close> around the steps between.
\<close>

definition hybridEncryptFile ::
  "platform \<Rightarrow> byte list \<Rightarrow> string \<Rightarrow> string \<Rightarrow>
   ('a crypto_state_scheme, byte list \<times> HybridEncryptionMetadata) act" where
  "hybridEncryptFile P file privateKey chainName =
     (let aesKey = generateAESKey P;
          nonce = generateIV P;
          fileData = file
      in andThen (modify (\<lambda>w. w\<lparr>aesKeyBuffer := Some aesKey\<rparr>))
        (\<lambda>_. andThen (liftResult (aesEncrypt P fileData aesKey nonce))
        (\<lambda>encryptedFile.
           let fileHash = sha256Hash P fileData in
           andThen (initLitClient P)
        (\<lambda>client. andThen (liftResult (getWalletAddressFromPrivateKey P privateKey))
        (\<lambda>address.
           let conditions = createOwnerOnlyAccessControlConditions address;
               unified = toUnifiedAccessControlConditions conditions
           in andThen (client_encrypt P client aesKey unified chainName)
        (\<lambda>litResult.
           let metadata =
             \<lparr>version = ''hybrid-v1'',
              encryptedKey = fst litResult,
              keyHash = snd litResult,
              iv = arrayBufferToBase64 P nonce,
              algorithm = ''AES-GCM'',
              keyLength = 256,
              accessControlConditions = conditions,
              chain = chainName,
              originalMimeType = None,
              originalSize = Some (length fileData),
              originalHash = Some fileHash\<rparr>
           in andThen (modify (\<lambda>w. w\<lparr>aesKeyBuffer := map_option fill0 (aesKeyBuffer w)\<rparr>))
        (\<lambda>_. succeed (encryptedFile, metadata))))))))"

text \<open>
  \<open>hybridDecryptFile\<close>. The key buffer is the one the SDK's \<open>decrypt\<close> returns; the local
  decryption and the hash check run inside a \<open>try\<close> whose \<open>finally\<close> zeroes it.
\<close>

definition hybridDecryptFile ::
  "platform \<Rightarrow> byte list \<Rightarrow> HybridEncryptionMetadata \<Rightarrow> string \<Rightarrow>
   ('a crypto_state_scheme, byte list) act" where
  "hybridDecryptFile P encryptedFile metadata privateKey =
     andThen (modify (\<lambda>w. w\<lparr>aesKeyBuffer := None\<rparr>))
       (\<lambda>_. if version metadata \<noteq> ''hybrid-v1''
            then throw (Error (''Unsupported encryption version: '' @ version metadata @ ''. '' @
                               ''Only hybrid-v1 is supported.''))
            else andThen (initLitClient P)
       (\<lambda>client. andThen (getAuthContext P privateKey (chain metadata))
       (\<lambda>authContext.
          let unified = toUnifiedAccessControlConditions (accessControlConditions metadata)
          in andThen (client_decrypt P client (encryptedKey metadata) (keyHash metadata) unified
                        authContext (chain metadata))
       (\<lambda>aesKey. andThen (modify (\<lambda>w. w\<lparr>aesKeyBuffer := Some aesKey\<rparr>))
       (\<lambda>_. tryFinally
              (andThen (liftResult (base64ToArrayBuffer P (iv metadata)))
                 (\<lambda>nonce. andThen (liftResult (aesDecrypt P encryptedFile aesKey nonce))
                 (\<lambda>decryptedData.
                    case originalHash metadata of
                      None \<Rightarrow> succeed decryptedData
                    | Some expected \<Rightarrow>
                        if expected = [] then succeed decryptedData
                        else if sha256Hash P decryptedData \<noteq> expected
                        then throw (Error ''File integrity check failed. The file may have been corrupted or tampered with.'')
                        else succeed decryptedData)))
              (modify (\<lambda>w. w\<lparr>aesKeyBuffer := map_option fill0 (aesKeyBuffer w)\<rparr>)))))))"


subsection \<open>Serialization of the metadata\<close>

text \<open>
  \<open>deserializeHybridMetadata\<close>; \<open>JSON.parse\<close> and the digits of a number are the
  platform's, and parameters. The message of the version error is a template string,
  whose evaluation can throw. The result is the parsed value itself, cast to the
  metadata type.
\<close>

definition deserializeHybridMetadata ::
  "(number \<Rightarrow> string) \<Rightarrow> (string \<Rightarrow> js_error + json) \<Rightarrow> string \<Rightarrow> js_error + json" where
  "deserializeHybridMetadata numberToString JSON_parse metadataJson =
     (case JSON_parse metadataJson of
        Inl e \<Rightarrow> Inl e
      | Inr parsed \<Rightarrow>
          (case getProperty (Some parsed) ''version'' of
             Inl e \<Rightarrow> Inl e
           | Inr v \<Rightarrow>
               if v \<noteq> Some (JStr ''hybrid-v1'')
               then (case templateString numberToString v of
                       Inl e \<Rightarrow> Inl e
                     | Inr shown \<Rightarrow>
                         Inl (Error (''Unsupported hybrid encryption version: '' @ shown)))
               else (case getProperty (Some parsed) ''encryptedKey'' of
                       Inl e \<Rightarrow> Inl e
                     | Inr k \<Rightarrow>
                         if \<not> truthy k
                         then Inl (Error ''Invalid hybrid encryption metadata: missing required fields'')
                         else (case getProperty (Some parsed) ''keyHash'' of
                                 Inl e \<Rightarrow> Inl e
                               | Inr h \<Rightarrow>
                                   if \<not> truthy h
                                   then Inl (Error ''Invalid hybrid encryption metadata: missing required fields'')
                                   else (case getProperty (Some parsed) ''iv'' of
                                           Inl e \<Rightarrow> Inl e
                                         | Inr n \<Rightarrow>
                                             if \<not> truthy n
                                             then Inl (Error ''Invalid hybrid encryption metadata: missing required fields'')
                                             else Inr parsed)))))"


section \<open>The Lit wrapper (lit-wrapper.ts)\<close>

text \<open>
  The repository holds two revisions of \<open>LitWrapperImpl\<close>. One keeps a client handle,
  an auth manager and a connected flag of its own and creates its own client in
  \<open>connect\<close>; the other reads the module state of hybrid-crypto.ts (``global state as
  single source of truth''). The first is modelled under the plain names. Of the second,
  \<open>isConnected\<close> and \<open>encrypt\<close> are modelled, with the suffix \<open>_shared\<close>, over
  \<open>isLitClientConnected\<close> and \<open>getLitClient\<close> of hybrid-crypto.ts; its \<open>connect\<close> calls
  an \<open>initLitClient\<close> that takes the network, which the hybrid-crypto.ts at hand does
  not have. A field \<open>_name\<close> of the class is \<open>w_name\<close> here; times are milliseconds.
\<close>

record lit_wrapper = crypto_state +
  w_client :: "LitClient option"
  w_authManager :: "AuthManager option"
  w_isConnected :: bool
  w_network :: json
  w_sessionExpiry :: "nat option"
  w_nodeCount :: nat

record LitConnectResult =
  cr_connected :: bool
  cr_network :: json
  cr_nodeCount :: nat

record LitEncryptResult =
  er_ciphertext :: string
  er_dataToEncryptHash :: string
  er_accessControlConditionHash :: string

record LitSessionResult =
  sr_active :: bool
  sr_expiresAt :: "nat option"
  sr_resourceAbilities :: "string list option"

definition isConnected :: "'a lit_wrapper_scheme \<Rightarrow> bool" where
  "isConnected w = (w_isConnected w \<and> isLitClientConnected w)"

definition isConnected_shared :: "'a lit_wrapper_scheme \<Rightarrow> bool" where
  "isConnected_shared w = isLitClientConnected w"

definition sdk_createLitClient :: "platform \<Rightarrow> ('a crypto_state_scheme, LitClient) act" where
  "sdk_createLitClient P =
     (\<lambda>w. (createLitClient P, w\<lparr>adapter_calls := adapter_calls w @ [CallCreateLitClient]\<rparr>))"

text \<open>
  \<open>connect\<close>. Its \<open>params\<close> is the \<open>params\<close> member of the request as the handler of
  main.ts passes it on (\<open>undefined\<close> when the request has none), so \<open>network\<close> and \<open>debug\<close>
  are JSON values of any type. Three steps stand before the \<open>try\<close>, and what they throw
  no handler of \<open>connect\<close> catches: the reads of \<open>params.network\<close> and \<open>params.debug\<close>, and,
  when \<open>debug\<close> is truthy, the message that shows the network. The message inside the
  \<open>try\<close> shows a number and the one of the \<open>catch\<close> a string; they cannot throw and are
  left out.
\<close>

definition connect ::
  "(number \<Rightarrow> string) \<Rightarrow> platform \<Rightarrow> json option \<Rightarrow> nat \<Rightarrow>
   ('a lit_wrapper_scheme, LitConnectResult) act" where
  "connect numberToString P params now =
     andThen (liftResult (getProperty params ''network''))
       (\<lambda>networkValue. andThen (liftResult (getProperty params ''debug''))
       (\<lambda>debugValue.
          let network = coalesce networkValue (JStr ''datil-dev'');
              debug = coalesce debugValue (JBool False)
          in andThen (if truthy (Some debug) then logTemplate numberToString network
                      else succeed ())
               (\<lambda>_. tryCatch
                  (andThen (sdk_createLitClient P)
                     (\<lambda>client. andThen (modify (\<lambda>w. w\<lparr>w_client := Some client\<rparr>))
                     (\<lambda>_. andThen (liftResult (createAuthManager P))
                     (\<lambda>manager.
                        andThen (modify (\<lambda>w. w\<lparr>w_authManager := Some manager,
                                                w_isConnected := True,
                                                w_network := network,
                                                w_nodeCount := 1,
                                                w_sessionExpiry := Some (now + 60 * 60 * 1000)\<rparr>))
                     (\<lambda>_. succeed \<lparr>cr_connected = True, cr_network = network,
                                    cr_nodeCount = 1\<rparr>)))))
                  (\<lambda>error.
                     andThen (modify (\<lambda>w. w\<lparr>w_isConnected := False, w_client := None,
                                             w_authManager := None\<rparr>))
                       (\<lambda>_. throw (Error (''Failed to connect to Lit Protocol: ''
                                            @ errorMessage error)))))))"

definition disconnect :: "platform \<Rightarrow> ('a lit_wrapper_scheme, unit) act" where
  "disconnect P =
     andThen
       (\<lambda>w. case w_client w of
              None \<Rightarrow> (Inr (), w)
            | Some client \<Rightarrow> tryCatch (disconnectLitClient P) (\<lambda>error. succeed ()) w)
       (\<lambda>_. modify (\<lambda>w. w\<lparr>w_isConnected := False, w_network := JStr '''', w_sessionExpiry := None,
                             w_client := None, w_authManager := None\<rparr>))"

definition getSession :: "nat \<Rightarrow> 'a lit_wrapper_scheme \<Rightarrow> LitSessionResult" where
  "getSession now w =
     (if \<not> isConnected w
      then \<lparr>sr_active = False, sr_expiresAt = None, sr_resourceAbilities = None\<rparr>
      else (case w_sessionExpiry w of
              None \<Rightarrow> \<lparr>sr_active = False, sr_expiresAt = None, sr_resourceAbilities = None\<rparr>
            | Some expiry \<Rightarrow>
                if expiry \<le> now
                then \<lparr>sr_active = False, sr_expiresAt = None, sr_resourceAbilities = None\<rparr>
                else \<lparr>sr_active = True, sr_expiresAt = Some expiry,
                      sr_resourceAbilities = Some [''encryption'', ''decryption'']\<rparr>))"

text \<open>
  \<open>value.length === 0\<close> of a truthy value: the length of an array or of a string, the
  member named \<open>length\<close> of an object (equal to 0 when it is a zero of either sign), and
  \<open>undefined\<close> for a number or a boolean.
\<close>

definition lengthIsZero :: "json \<Rightarrow> bool" where
  "lengthIsZero v =
     (case v of
        JArr xs \<Rightarrow> xs = []
      | JStr s \<Rightarrow> s = []
      | JObj members \<Rightarrow>
          (case map_of (rev members) ''length'' of
             Some (JNum (Finite negative mantissa exponent)) \<Rightarrow> mantissa = 0
           | _ \<Rightarrow> False)
      | _ \<Rightarrow> False)"

text \<open>
  The own enumerable properties that an object spread copies from a value: the members
  of an object, the elements of an array and the characters of a string under their
  indices, and none of any other value.
\<close>

fun ownProperties :: "json \<Rightarrow> (string \<times> json) list" where
  "ownProperties (JObj members) = members"
| "ownProperties (JArr xs) = zip (map showNat [0..<length xs]) xs"
| "ownProperties (JStr s) = zip (map showNat [0..<length s]) (map (\<lambda>c. JStr [c]) s)"
| "ownProperties v = []"

text \<open>
  The private method \<open>toUnifiedAccessControlConditions\<close> of the wrapper:
  \<open>conditions.map\<close> over an array, each condition spread behind the member
  \<open>conditionType\<close> (of two members with one name the last one counts); every other
  value has no callable \<open>map\<close>.
\<close>

definition toUnifiedAccessControlConditions_wrapper :: "json \<Rightarrow> js_error + json" where
  "toUnifiedAccessControlConditions_wrapper conditions =
     (case conditions of
        JArr xs \<Rightarrow>
          Inr (JArr (map (\<lambda>condition.
                 JObj ((''conditionType'', JStr ''evmBasic'') # ownProperties condition)) xs))
      | _ \<Rightarrow> Inl (TypeError ''conditions.map is not a function''))"

definition hashAccessConditions :: "platform \<Rightarrow> json \<Rightarrow> string" where
  "hashAccessConditions P conditions =
     toHex (subtle_digest P (textEncode P (json_stringify P conditions)))"

definition client_encrypt_request ::
  "platform \<Rightarrow> LitClient \<Rightarrow> byte list \<Rightarrow> json \<Rightarrow> json \<Rightarrow>
   ('a crypto_state_scheme, string \<times> string) act" where
  "client_encrypt_request P client dataToEncrypt conditions chainName =
     (\<lambda>w. (lit_encrypt_request P client dataToEncrypt conditions chainName,
           w\<lparr>adapter_calls := adapter_calls w @
                [CallEncryptRequest client dataToEncrypt conditions chainName]\<rparr>))"

text \<open>
  What both revisions of \<open>encrypt\<close> do once they hold a client. Its \<open>params\<close> is the
  \<open>params\<close> member of the request, as for \<open>connect\<close>. In the order of the code: the reads
  of \<open>params.data\<close>, \<open>params.accessControlConditions\<close> and \<open>params.chain\<close> (the first of
  which throws a \<open>TypeError\<close> on \<open>undefined\<close> and on \<open>null\<close>); the check \<open>!data\<close>; the check
  of the policy, \<open>!accessControlConditions || accessControlConditions.length === 0\<close>; then
  the \<open>try\<close> around the conversion of the policy, the decoding of the data (\<open>atob\<close> takes
  the string form of its argument) and the SDK call.
\<close>

definition encryptWith ::
  "(number \<Rightarrow> string) \<Rightarrow> platform \<Rightarrow> LitClient \<Rightarrow> json option \<Rightarrow>
   ('a crypto_state_scheme, LitEncryptResult) act" where
  "encryptWith numberToString P client params =
     andThen (liftResult (getProperty params ''data''))
       (\<lambda>data. andThen (liftResult (getProperty params ''accessControlConditions''))
       (\<lambda>conditionsValue. andThen (liftResult (getProperty params ''chain''))
       (\<lambda>chainValue.
          let chainName = coalesce chainValue (JStr ''ethereum'') in
          if \<not> truthy data then throw (Error ''Missing required parameter: data'')
          else (case conditionsValue of
                  None \<Rightarrow> throw (Error ''Missing required parameter: accessControlConditions'')
                | Some conditions \<Rightarrow>
                    if \<not> truthy (Some conditions) \<or> lengthIsZero conditions
                    then throw (Error ''Missing required parameter: accessControlConditions'')
                    else tryCatch
                           (andThen (liftResult (toUnifiedAccessControlConditions_wrapper conditions))
                              (\<lambda>unified. andThen (liftResult (templateString numberToString data))
                              (\<lambda>encoded. andThen (liftResult (atob P encoded))
                              (\<lambda>binary.
                                 let dataToEncrypt = textEncode P binary in
                                 andThen (client_encrypt_request P client dataToEncrypt unified chainName)
                              (\<lambda>result.
                                 succeed \<lparr>er_ciphertext = fst result,
                                          er_dataToEncryptHash = snd result,
                                          er_accessControlConditionHash =
                                            hashAccessConditions P conditions\<rparr>)))))
                           (\<lambda>error. throw (Error (''Encryption failed: '' @ errorMessage error)))))))"

definition encrypt ::
  "(number \<Rightarrow> string) \<Rightarrow> platform \<Rightarrow> json option \<Rightarrow>
   ('a lit_wrapper_scheme, LitEncryptResult) act" where
  "encrypt numberToString P params =
     (\<lambda>w. if \<not> isConnected w then throw (Error ''Lit Protocol not connected'') w
          else (case w_client w of
                  None \<Rightarrow> throw (Error ''Lit Protocol not connected'') w
                | Some client \<Rightarrow> encryptWith numberToString P client params w))"

definition encrypt_shared ::
  "(number \<Rightarrow> string) \<Rightarrow> platform \<Rightarrow> json option \<Rightarrow>
   ('a lit_wrapper_scheme, LitEncryptResult) act" where
  "encrypt_shared numberToString P params =
     (\<lambda>w. if \<not> isConnected_shared w then throw (Error ''Lit Protocol not connected'') w
          else (case getLitClient w of
                  None \<Rightarrow> throw (Error ''Lit Protocol not connected'') w
                | Some currentClient \<Rightarrow> encryptWith numberToString P currentClient params w))"


section \<open>Auxiliary definitions for the properties\<close>

text \<open>
  The invariant behind the single-flight initialization: an initialization is pending
  exactly while \<open>initPromise\<close> is set, and then there is exactly one; the client and the
  auth manager are set together; and nothing is pending while a client is set.
\<close>

definition singleFlightInv :: "'a crypto_state_scheme \<Rightarrow> bool" where
  "singleFlightInv w =
     (initPending w = (case initPromise w of None \<Rightarrow> 0 | Some p \<Rightarrow> 1)
      \<and> (litClient w = None) = (authManager w = None)
      \<and> (litClient w = None \<or> initPromise w = None))"

text \<open>\<open>new LitWrapperImpl()\<close>: the field initializers of the class, beside a module state.\<close>

definition createLitWrapper :: "crypto_state \<Rightarrow> lit_wrapper" where
  "createLitWrapper m =
     crypto_state.extend m
       (lit_wrapper.fields None None False (JStr ''naga-dev'') None 0)"

text \<open>
  A small platform to run the definitions on: every random byte is 42, sealing appends
  a tag of sixteen bytes that opening checks and strips, base64 is replaced by the
  identity, the digest is the input's first byte, and the SDK hands out client 1 and
  auth manager 2, wraps a key as the binary string of its bytes and unwraps a wrapped
  key to the bytes of that string. Single components are changed where an example
  needs a failure.
\<close>

definition toyPlatform :: platform where
  "toyPlatform =
     \<lparr>getRandomValues = (\<lambda>n. replicate n 42),
      importKey = (\<lambda>key. if length key = 32 then Inr key else Inl (Error ''Invalid key length'')),
      subtle_encrypt = (\<lambda>key nonce data. Inr (data @ take 16 (key @ nonce))),
      subtle_decrypt = (\<lambda>key nonce sealed.
         if 16 \<le> length sealed \<and> drop (length sealed - 16) sealed = take 16 (key @ nonce)
         then Inr (take (length sealed - 16) sealed)
         else Inl (Error ''The operation failed for an operation-specific reason'')),
      subtle_digest = take 1,
      btoa = (\<lambda>binary. binary),
      atob = (\<lambda>encoded. Inr encoded),
      textEncode = map charCodeAt,
      json_stringify = (\<lambda>conditions. ''[]''),
      walletAddress = (\<lambda>key. Inr ''0xABCDEF''),
      privateKeyToAccount = (\<lambda>key. Inr 3),
      createLitClient = Inr 1,
      createAuthManager = Inr 2,
      createEoaAuthContext = (\<lambda>manager account client. Inr 4),
      lit_encrypt = (\<lambda>client key conditions chainName.
         Inr (map fromCharCode key, toHex (take 1 key))),
      lit_encrypt_request = (\<lambda>client bytes conditions chainName.
         Inr (map fromCharCode bytes, toHex (take 1 bytes))),
      lit_decrypt = (\<lambda>client wrapped digest conditions authContext chainName.
         Inr (map charCodeAt wrapped)),
      lit_disconnect = (\<lambda>client. Inr ())\<rparr>"

text \<open>
  A call whose policy list is empty or absent: there is no params object, or it has no
  member \<open>accessControlConditions\<close>, or that member is \<open>null\<close> or the empty array. And a
  call whose data is given: a truthy member \<open>data\<close>.
\<close>

definition emptyPolicy :: "json option \<Rightarrow> bool" where
  "emptyPolicy params =
     (case params of
        None \<Rightarrow> True
      | Some p \<Rightarrow>
          (case memberOf p ''accessControlConditions'' of
             None \<Rightarrow> True
           | Some conditions \<Rightarrow> conditions = JNull \<or> conditions = JArr []))"

definition dataGiven :: "json option \<Rightarrow> bool" where
  "dataGiven params = (case params of None \<Rightarrow> False | Some p \<Rightarrow> truthy (memberOf p ''data''))"

text \<open>
  The conditions under which \<open>connect\<close> throws before its \<open>try\<close>: there is no params
  object to read from, or \<open>debug\<close> is on and the network cannot be shown in the message.
\<close>

definition connectNetwork :: "json \<Rightarrow> json" where
  "connectNetwork p = coalesce (memberOf p ''network'') (JStr ''datil-dev'')"

definition connectDebug :: "json \<Rightarrow> bool" where
  "connectDebug p = truthy (Some (coalesce (memberOf p ''debug'') (JBool False)))"

definition throwsBeforeTry :: "(number \<Rightarrow> string) \<Rightarrow> json option \<Rightarrow> bool" where
  "throwsBeforeTry numberToString params =
     (case params of
        None \<Rightarrow> True
      | Some p \<Rightarrow>
          p = JNull \<or> (connectDebug p \<and> isl (jsString numberToString (connectNetwork p))))"


text \<open>A buffer every byte of which is zero.\<close>

definition zeroed :: "byte list \<Rightarrow> bool" where
  "zeroed buffer = list_all (\<lambda>b. b = 0) buffer"


section \<open>Properties of the control protocol\<close>


lemma handleRequest_returns: "fst (handleRequest methods (Some request) s) = Inr ()"
  by (auto simp: handleRequest_def Let_def tryCatch_def andThen_def succeed_def sendResponse_def modify_def
      runHandler_def split: option.splits prod.splits sum.splits)

lemma handleRequest_null:
  "handleRequest methods None s = (Inl (cannotDestructure ''method'' ''request'' ''null''), s)"
  by (simp add: handleRequest_def throw_def)

lemma processLine_null:
  "parse line = Parsed None \<Longrightarrow>
   processLine parse methods line s =
     (Inr (), s\<lparr>stdout := stdout s @
        [ResponseLine (createErrorResponse IdNull PARSE_ERROR ''Parse error''
           (Some (JStr (errorMessage (cannotDestructure ''method'' ''request'' ''null'')))))]\<rparr>)"
  by (simp add: processLine_def tryCatch_def handleRequest_null sendResponse_def modify_def)

lemma processLine_returns: "fst (processLine parse methods line s) = Inr ()"
proof (cases "parse line")
  case (SyntaxError m)
  then show ?thesis
    by (simp add: processLine_def tryCatch_def throw_def sendResponse_def modify_def)
next
  case (Parsed request)
  show ?thesis
  proof (cases request)
    case None
    with Parsed show ?thesis by (simp add: processLine_null)
  next
    case (Some r)
    with Parsed handleRequest_returns [of methods r s] show ?thesis
      by (cases "handleRequest methods (Some r) s") (simp add: processLine_def tryCatch_def)
  qed
qed

declare processBuffer.simps [simp del] completeLines.simps [simp del] partialLine.simps [simp del]

lemma processBuffer_sequential:
  "processBuffer parse methods buffer s =
     (Inr (partialLine buffer), processLines parse methods (completeLines buffer) s)"
proof (induction parse methods buffer s rule: processBuffer.induct)
  case (1 parse methods buffer s)
  show ?case
  proof (cases "indexOf newline buffer")
    case None
    then show ?thesis
      by (simp add: processBuffer.simps [of _ _ buffer] completeLines.simps [of buffer]
          partialLine.simps [of buffer])
  next
    case (Some i)
    show ?thesis
    proof (cases "trim (take i buffer) = []")
      case True
      with Some "1.IH"(1) [of i] show ?thesis
        by (simp add: processBuffer.simps [of _ _ buffer] completeLines.simps [of buffer]
            partialLine.simps [of buffer])
    next
      case False
      obtain s' where r: "processLine parse methods (trim (take i buffer)) s = (Inr (), s')"
        using processLine_returns [of parse methods "trim (take i buffer)" s]
        by (cases "processLine parse methods (trim (take i buffer)) s") auto
      with Some False "1.IH"(2) [of i _ _ "Inr ()" s' "()"] show ?thesis
        by (simp add: processBuffer.simps [of _ _ buffer] completeLines.simps [of buffer]
            partialLine.simps [of buffer])
    qed
  qed
qed






lemma readLoop_returns: "fst (readLoop parse methods chunks buffer s) = Inr ()"
  by (induction chunks arbitrary: buffer s) (simp_all add: processBuffer_sequential)







lemma indexOf_None: "c \<notin> set xs \<Longrightarrow> indexOf c xs = None"
  by (induction xs) auto







text \<open>
  Claim C6. For a message whose id is absent or null, \<open>handleRequest\<close> writes nothing of
  its own: it returns normally, the state it leaves is the one the handler alone leaves
  (the state it started from when the method is unknown), and no response line is among
  the lines added to standard output, whether the method is unknown, the handler returns
  or the handler throws.
\<close>

theorem handleRequest_notification_no_response:
  assumes "isNotification (req_id request)"
  shows "handleRequest methods (Some request) s =
           (Inr (), case methods (req_method request) of
                      None \<Rightarrow> s
                    | Some handler \<Rightarrow> snd (runHandler handler (req_params request) s))
       \<and> (\<forall>response. ResponseLine response \<notin>
             set (drop (length (stdout s)) (stdout (snd (handleRequest methods (Some request) s)))))"
proof -
  have eq: "handleRequest methods (Some request) s =
           (Inr (), case methods (req_method request) of
                      None \<Rightarrow> s
                    | Some handler \<Rightarrow> snd (runHandler handler (req_params request) s))"
    using assms
    by (auto simp: handleRequest_def Let_def tryCatch_def andThen_def succeed_def
        split: option.splits prod.splits sum.splits)
  have "\<forall>response. ResponseLine response \<notin>
          set (drop (length (stdout s)) (stdout (snd (handleRequest methods (Some request) s))))"
    unfolding eq
    by (auto simp: runHandler_def split: option.splits prod.splits)
  with eq show ?thesis by blast
qed

text \<open>A notification for a method whose handler reports progress and then throws.\<close>

theorem handleRequest_notification_no_response_witness:
  "handleRequest
     (\<lambda>m. if m = ''synapse.upload''
          then Some (\<lambda>params g. (Inl (Error ''Synapse not connected''), [(''synapse.uploadProgress'', None)], g))
          else None)
     (Some \<lparr>req_method = ''synapse.upload'', req_params = None, req_id = IdNull\<rparr>)
     \<lparr>isShuttingDown = False, services = (), stdout = []\<rparr>
   = (Inr (), \<lparr>isShuttingDown = False, services = (),
               stdout = [NotificationLine ''synapse.uploadProgress'' None]\<rparr>)"
  using handleRequest_notification_no_response
    [of "\<lparr>req_method = ''synapse.upload'', req_params = None, req_id = IdNull\<rparr>"
        "(\<lambda>m. if m = ''synapse.upload''
          then Some (\<lambda>params g. (Inl (Error ''Synapse not connected''), [(''synapse.uploadProgress'', None)], g))
          else None)"
        "\<lparr>isShuttingDown = False, services = (), stdout = []\<rparr>"]
  by (simp add: isNotification_def runHandler_def)

text \<open>
  Claim C7, amended. For every parsed request other than the JSON literal \<open>null\<close>,
  \<open>handleRequest\<close> never ends by throwing, whatever the registry and the state; for
  \<open>null\<close> it does: the destructuring of its first statement, which stands before the
  \<open>try\<close>, throws a \<open>TypeError\<close> and nothing is written. When the handler of a request
  that carries an id throws, the lines added to standard output are the handler's own
  notifications followed by exactly one error response: no result, the id of the
  request, the code -32603 and, as its message, the message of the thrown \<open>Error\<close> (the
  string form of any other thrown value). Processing a line never ends by throwing: the
  \<open>TypeError\<close> of a \<open>null\<close> line is caught by the loop and answered with one parse-error
  response (code -32700, id \<open>null\<close>, the message of the \<open>TypeError\<close> as data). The whole main
  loop never ends by throwing either, so no handler error ends the process.
\<close>

theorem handleRequest_catches_handler_errors:
  "fst (handleRequest methods (Some request) s) = Inr ()
   \<and> (\<exists>m. handleRequest methods None s = (Inl (TypeError m), s))
   \<and> (methods (req_method request) = Some handler \<longrightarrow>
        handler (req_params request) (isShuttingDown s, services s) = (Inl e, notes, g) \<longrightarrow>
        \<not> isNotification (req_id request) \<longrightarrow>
        stdout (snd (handleRequest methods (Some request) s)) =
          stdout s @ map (\<lambda>(m, p). NotificationLine m p) notes
            @ [ResponseLine
                 \<lparr>resp_result = None,
                  resp_error = Some \<lparr>err_code = - 32603,
                                     err_message = (case e of Error m \<Rightarrow> m | TypeError m \<Rightarrow> m
                                                    | Thrown v \<Rightarrow> v),
                                     err_data = None\<rparr>,
                  resp_id = req_id request\<rparr>])
   \<and> fst (processLine parse methods line s) = Inr ()
   \<and> (parse line = Parsed None \<longrightarrow>
        (\<exists>m. stdout (snd (processLine parse methods line s)) =
          stdout s @ [ResponseLine
                 \<lparr>resp_result = None,
                  resp_error = Some \<lparr>err_code = - 32700, err_message = ''Parse error'',
                                     err_data = Some (JStr m)\<rparr>,
                  resp_id = IdNull\<rparr>]))
   \<and> fst (main parse methods chunks s) = Inr ()"
proof (intro conjI impI)
  show "fst (handleRequest methods (Some request) s) = Inr ()"
    by (rule handleRequest_returns)
  show "\<exists>m. handleRequest methods None s = (Inl (TypeError m), s)"
    by (simp add: handleRequest_null cannotDestructure_def)
  show "fst (processLine parse methods line s) = Inr ()"
    by (rule processLine_returns)
  show "fst (main parse methods chunks s) = Inr ()"
    by (simp add: main_def andThen_def sendNotification_def modify_def readLoop_returns)
next
  assume "methods (req_method request) = Some handler"
    and "handler (req_params request) (isShuttingDown s, services s) = (Inl e, notes, g)"
    and "\<not> isNotification (req_id request)"
  then show "stdout (snd (handleRequest methods (Some request) s)) =
          stdout s @ map (\<lambda>(m, p). NotificationLine m p) notes
            @ [ResponseLine
                 \<lparr>resp_result = None,
                  resp_error = Some \<lparr>err_code = - 32603,
                                     err_message = (case e of Error m \<Rightarrow> m | TypeError m \<Rightarrow> m
                                                    | Thrown v \<Rightarrow> v),
                                     err_data = None\<rparr>,
                  resp_id = req_id request\<rparr>]"
    by (cases g; cases e)
       (simp_all add: handleRequest_def Let_def tryCatch_def andThen_def runHandler_def sendResponse_def
          modify_def createErrorResponse_def INTERNAL_ERROR_def)
next
  assume "parse line = Parsed None"
  then show "\<exists>m. stdout (snd (processLine parse methods line s)) =
          stdout s @ [ResponseLine
                 \<lparr>resp_result = None,
                  resp_error = Some \<lparr>err_code = - 32700, err_message = ''Parse error'',
                                     err_data = Some (JStr m)\<rparr>,
                  resp_id = IdNull\<rparr>]"
    by (simp add: processLine_null createErrorResponse_def PARSE_ERROR_def)
qed

text \<open>
  The \<open>lit.encrypt\<close> handler of a disconnected runtime, called with id 7, and a line
  that holds the literal \<open>null\<close>.
\<close>

theorem handleRequest_catches_handler_errors_witness:
  "stdout (snd (handleRequest
     (\<lambda>m. if m = ''lit.encrypt''
          then Some (\<lambda>params g. (Inl (Error ''Lit Protocol not connected''), [], g))
          else None)
     (Some \<lparr>req_method = ''lit.encrypt'', req_params = None, req_id = IdNum 7\<rparr>)
     \<lparr>isShuttingDown = False, services = (), stdout = []\<rparr>))
   = [ResponseLine
        \<lparr>resp_result = None,
         resp_error = Some \<lparr>err_code = - 32603, err_message = ''Lit Protocol not connected'',
                            err_data = None\<rparr>,
         resp_id = IdNum 7\<rparr>]
   \<and> length (stdout (snd (processLine (\<lambda>l. Parsed None)
        (\<lambda>m. if m = ''lit.encrypt''
          then Some (\<lambda>params g. (Inl (Error ''Lit Protocol not connected''), [], g))
          else None)
        ''null'' \<lparr>isShuttingDown = False, services = (), stdout = []\<rparr>))) = 1"
proof -
  note c7 = handleRequest_catches_handler_errors
    [of "(\<lambda>m. if m = ''lit.encrypt''
          then Some (\<lambda>params g. (Inl (Error ''Lit Protocol not connected''), [], g))
          else None)"
        "\<lparr>req_method = ''lit.encrypt'', req_params = None, req_id = IdNum 7\<rparr>"
        "\<lparr>isShuttingDown = False, services = (), stdout = []\<rparr>"
        "(\<lambda>params g. (Inl (Error ''Lit Protocol not connected''), [], g))"
        "Error ''Lit Protocol not connected''" "[]" "(False, ())"
        "\<lambda>l. Parsed None" "''null''"]
  from c7 have a: "stdout (snd (handleRequest
     (\<lambda>m. if m = ''lit.encrypt''
          then Some (\<lambda>params g. (Inl (Error ''Lit Protocol not connected''), [], g))
          else None)
     (Some \<lparr>req_method = ''lit.encrypt'', req_params = None, req_id = IdNum 7\<rparr>)
     \<lparr>isShuttingDown = False, services = (), stdout = []\<rparr>))
   = [ResponseLine
        \<lparr>resp_result = None,
         resp_error = Some \<lparr>err_code = - 32603, err_message = ''Lit Protocol not connected'',
                            err_data = None\<rparr>,
         resp_id = IdNum 7\<rparr>]"
    by (simp add: isNotification_def)
  from c7 obtain m where "stdout (snd (processLine (\<lambda>l. Parsed None)
        (\<lambda>m. if m = ''lit.encrypt''
          then Some (\<lambda>params g. (Inl (Error ''Lit Protocol not connected''), [], g))
          else None)
        ''null'' \<lparr>isShuttingDown = False, services = (), stdout = []\<rparr>))
      = [ResponseLine
                 \<lparr>resp_result = None,
                  resp_error = Some \<lparr>err_code = - 32700, err_message = ''Parse error'',
                                     err_data = Some (JStr m)\<rparr>,
                  resp_id = IdNull\<rparr>]"
    by auto
  with a show ?thesis by simp
qed

text \<open>
  The claim as worded fails on the request \<open>null\<close>: \<open>handleRequest\<close> ends by throwing,
  and writes no response.
\<close>

theorem handleRequest_null_counterexample:
  "handleRequest (\<lambda>m. if m = ''ping'' then Some ping else None) None
     \<lparr>isShuttingDown = False, services = (), stdout = []\<rparr>
   = (Inl (TypeError ''Cannot destructure property 'method' of 'request' as it is null.''),
      \<lparr>isShuttingDown = False, services = (), stdout = []\<rparr>)"
  by (simp add: handleRequest_def Let_def throw_def cannotDestructure_def quoted_def)


section \<open>Properties of CID validation and download\<close>

lemma takeWhile_full: "length (takeWhile P s) = length s \<longleftrightarrow> list_all P s"
  by (induction s) auto

lemma class_remainders:
  "[] \<in> set (map (\<lambda>k. drop k s) (rev [lo..<Suc m])) \<longleftrightarrow> lo \<le> m \<and> length s \<le> m"
proof
  assume "[] \<in> set (map (\<lambda>k. drop k s) (rev [lo..<Suc m]))"
  then obtain k where "lo \<le> k" "k \<le> m" "drop k s = []" by auto
  then show "lo \<le> m \<and> length s \<le> m" by simp
next
  assume "lo \<le> m \<and> length s \<le> m"
  then have "m \<in> set (rev [lo..<Suc m])" "drop m s = []" by simp_all
  then show "[] \<in> set (map (\<lambda>k. drop k s) (rev [lo..<Suc m]))"
    by (metis (mono_tags, lifting) image_eqI set_map)
qed

lemma bounds_unbounded:
  "n \<le> L \<Longrightarrow> (lo \<le> n \<and> L \<le> n) = (n = L \<and> lo \<le> L)" for n L lo :: nat
  by auto

lemma bounds_bounded:
  "n \<le> L \<Longrightarrow> (lo \<le> min h n \<and> L \<le> min h n) = (n = L \<and> lo \<le> L \<and> L \<le> h)"
  for n L lo h :: nat
  by auto

lemma class_full:
  "[] \<in> set (matchPrefix (Class ranges lo hi) s) \<longleftrightarrow>
     list_all (inClass ranges) s \<and> lo \<le> length s \<and> (case hi of None \<Rightarrow> True | Some h \<Rightarrow> length s \<le> h)"
proof -
  let ?n = "length (takeWhile (inClass ranges) s)"
  have n: "?n \<le> length s"
    by (rule length_takeWhile_le)
  have full: "?n = length s \<longleftrightarrow> list_all (inClass ranges) s"
    by (rule takeWhile_full)
  show ?thesis
  proof (cases hi)
    case None
    have "[] \<in> set (matchPrefix (Class ranges lo hi) s) \<longleftrightarrow> lo \<le> ?n \<and> length s \<le> ?n"
      unfolding None matchPrefix.simps Let_def option.case by (rule class_remainders)
    also have "\<dots> \<longleftrightarrow> list_all (inClass ranges) s \<and> lo \<le> length s"
      unfolding full [symmetric] using n by (rule bounds_unbounded)
    finally show ?thesis by (simp add: None)
  next
    case (Some h)
    have "[] \<in> set (matchPrefix (Class ranges lo hi) s) \<longleftrightarrow> lo \<le> min h ?n \<and> length s \<le> min h ?n"
      unfolding Some matchPrefix.simps Let_def option.case by (rule class_remainders)
    also have "\<dots> \<longleftrightarrow> list_all (inClass ranges) s \<and> lo \<le> length s \<and> length s \<le> h"
      unfolding full [symmetric] using n by (rule bounds_bounded)
    finally show ?thesis by (simp add: Some)
  qed
qed

lemma lit_seq:
  "[] \<in> set (matchPrefix (Seq (Lit w) r) s) \<longleftrightarrow> (\<exists>t. s = w @ t \<and> [] \<in> set (matchPrefix r t))"
proof (cases "take (length w) s = w")
  case True
  then have s: "s = w @ drop (length w) s" by (metis append_take_drop_id)
  show ?thesis
  proof
    assume "[] \<in> set (matchPrefix (Seq (Lit w) r) s)"
    with True have "[] \<in> set (matchPrefix r (drop (length w) s))" by simp
    with s show "\<exists>t. s = w @ t \<and> [] \<in> set (matchPrefix r t)" by blast
  next
    assume "\<exists>t. s = w @ t \<and> [] \<in> set (matchPrefix r t)"
    then obtain t where "s = w @ t" "[] \<in> set (matchPrefix r t)" by blast
    then show "[] \<in> set (matchPrefix (Seq (Lit w) r) s)" by simp
  qed
next
  case False
  then have "\<not> (\<exists>t. s = w @ t)" by auto
  with False show ?thesis by simp
qed

lemma of_char_cases58:
  "(49 \<le> n \<and> n \<le> 57 \<or> 65 \<le> n \<and> n \<le> 72 \<or> 74 \<le> n \<and> n \<le> 78 \<or> 80 \<le> n \<and> n \<le> 90
     \<or> 97 \<le> n \<and> n \<le> 107 \<or> 109 \<le> n \<and> n \<le> 122)
   = (n \<in> set (map of_char base58Alphabet))" for n :: nat
  unfolding base58Alphabet_def
  apply simp
  apply arith
  done

lemma in58: "inClass base58Class c \<longleftrightarrow> c \<in> set base58Alphabet"
proof -
  have "c \<in> set base58Alphabet \<longleftrightarrow> (of_char c :: nat) \<in> of_char ` set base58Alphabet"
    by (simp add: inj_image_mem_iff inj_on_def)
  also have "\<dots> \<longleftrightarrow> (of_char c :: nat) \<in> set (map of_char base58Alphabet)"
    by simp
  also have "\<dots> \<longleftrightarrow> inClass base58Class c"
    unfolding of_char_cases58 [symmetric]
    by (simp add: inClass_def base58Class_def)
  finally show ?thesis by simp
qed



lemma of_char_cases32:
  "(97 \<le> n \<and> n \<le> 122 \<or> 50 \<le> n \<and> n \<le> 55)
   = (n \<in> set (map of_char base32Alphabet))" for n :: nat
  unfolding base32Alphabet_def
  apply simp
  apply arith
  done

lemma in32: "inClass base32Class c \<longleftrightarrow> c \<in> set base32Alphabet"
proof -
  have "c \<in> set base32Alphabet \<longleftrightarrow> (of_char c :: nat) \<in> of_char ` set base32Alphabet"
    by (simp add: inj_image_mem_iff inj_on_def)
  also have "\<dots> \<longleftrightarrow> (of_char c :: nat) \<in> set (map of_char base32Alphabet)"
    by simp
  also have "\<dots> \<longleftrightarrow> inClass base32Class c"
    unfolding of_char_cases32 [symmetric]
    by (simp add: inClass_def base32Class_def)
  finally show ?thesis by simp
qed

lemma isValidCid_shape:
  "isValidCid s \<longleftrightarrow>
     (\<exists>t. s = ''Qm'' @ t \<and> length t = 44 \<and> list_all (\<lambda>c. c \<in> set base58Alphabet) t)
   \<or> (\<exists>t. s = ''baf'' @ t \<and> 55 \<le> length t \<and> list_all (\<lambda>c. c \<in> set base32Alphabet) t)"
proof -
  have "isValidCid s \<longleftrightarrow>
      [] \<in> set (matchPrefix (Seq (Lit ''Qm'') (Class base58Class 44 (Some 44))) s)
    \<or> [] \<in> set (matchPrefix (Seq (Lit ''baf'') (Class base32Class 55 None)) s)"
    by (simp only: isValidCid_def regexTest_def matchPrefix.simps(4) set_append Un_iff)
  also have "\<dots> \<longleftrightarrow>
      (\<exists>t. s = ''Qm'' @ t \<and> [] \<in> set (matchPrefix (Class base58Class 44 (Some 44)) t))
    \<or> (\<exists>t. s = ''baf'' @ t \<and> [] \<in> set (matchPrefix (Class base32Class 55 None) t))"
    by (simp only: lit_seq)
  also have "\<dots> \<longleftrightarrow>
     (\<exists>t. s = ''Qm'' @ t \<and> length t = 44 \<and> list_all (\<lambda>c. c \<in> set base58Alphabet) t)
   \<or> (\<exists>t. s = ''baf'' @ t \<and> 55 \<le> length t \<and> list_all (\<lambda>c. c \<in> set base32Alphabet) t)"
    unfolding class_full in58 in32 by auto
  finally show ?thesis .
qed

lemma download_invalid_error:
  assumes "memberOf params ''cid'' = Some (JStr c)" "\<not> isValidCid (trim c)"
  shows "download fetchBody writeFile (Some params) w =
           (Inl (Error (if \<not> synapse_isConnected w then ''Synapse not connected''
                        else if c = [] then ''Missing required parameter: cid''
                        else if \<not> truthy (memberOf params ''outputPath'')
                        then ''Missing required parameter: outputPath''
                        else ''Invalid CID format: '' @ trim c)), w)"
proof -
  from assms(1) have "params \<noteq> JNull"
    by (auto simp: memberOf_def)
  then have d: "destructure (Some params) ''cid'' ''downloadParams'' = Inr params"
    by (simp add: destructure_def)
  show ?thesis
    using assms
    by (cases "memberOf params ''outputPath''")
       (auto simp: download_def d throw_def truthy_def)
qed

lemma download_absent_params:
  assumes "synapse_isConnected w" "params = None \<or> params = Some JNull"
  shows "\<exists>m. download fetchBody writeFile params w = (Inl (TypeError m), w)"
  using assms by (auto simp: download_def destructure_def throw_def cannotDestructure_def)

lemma download_cid_not_string:
  assumes "synapse_isConnected w" "memberOf params ''cid'' = Some v" "\<forall>c. v \<noteq> JStr c"
  shows "download fetchBody writeFile (Some params) w =
           (Inl (if \<not> truthy (Some v) then Error ''Missing required parameter: cid''
                 else if \<not> truthy (memberOf params ''outputPath'')
                 then Error ''Missing required parameter: outputPath''
                 else TypeError ''cid.trim is not a function''), w)"
proof -
  from assms(2) have "params \<noteq> JNull"
    by (auto simp: memberOf_def)
  then have d: "destructure (Some params) ''cid'' ''downloadParams'' = Inr params"
    by (simp add: destructure_def)
  show ?thesis
    using assms
    by (cases "memberOf params ''outputPath''"; cases v)
       (auto simp: download_def d throw_def truthy_def)
qed


text \<open>The assertions of the repository's own test of \<open>isValidCid\<close>.\<close>

lemma isValidCid_tests:
  "isValidCid ''QmYwAPJzv5CZsnAzt8auqD9BKKy1CjV5v8wRWGW4Y8Y1zT''"
  "isValidCid ''bafybeigdyrzt5sfp7udm7hu76uh7y26nf3efuylqabf3oclgtqy55fbzdi''"
  "\<not> isValidCid ''invalid''" "\<not> isValidCid []" "\<not> isValidCid ''Qm''" "\<not> isValidCid ''bafy''"
  by code_simp+

text \<open>
  Claim C10 (as amended). \<open>isValidCid\<close> accepts exactly the strings of the CIDv0 shape
  (\<open>Qm\<close> and then exactly 44 characters of the base58 alphabet) and of the CIDv1 shape
  (\<open>baf\<close> and then 55 or more characters of the base32 alphabet). A download whose cid
  is a string with a trimmed value that is not accepted always fails and leaves the
  state as it was, so no gateway is contacted and no file is written. The error is that
  of the first guard that applies, in the order of the code: \<open>Synapse not connected\<close> on
  a wrapper that is not connected; else \<open>Missing required parameter: cid\<close> when the cid
  is the empty string; else \<open>Missing required parameter: outputPath\<close> when the output
  path is absent or falsy (\<open>null\<close>, \<open>false\<close>, zero, the empty string); and only else
  \<open>Invalid CID format\<close>, carrying the trimmed cid. No other call of a connected wrapper
  gets as far as the validation: without a params object it fails with a \<open>TypeError\<close>,
  and with a cid that is not a string it fails with the error for a missing cid when
  the cid is falsy, else with the error for a missing output path when that is absent or
  falsy, and else with a \<open>TypeError\<close>; the state is unchanged in all of them.
\<close>

theorem isValidCid_shape_and_download_guard:
  "(isValidCid s \<longleftrightarrow>
      (\<exists>t. s = ''Qm'' @ t \<and> length t = 44 \<and> list_all (\<lambda>c. c \<in> set base58Alphabet) t)
    \<or> (\<exists>t. s = ''baf'' @ t \<and> 55 \<le> length t \<and> list_all (\<lambda>c. c \<in> set base32Alphabet) t))
   \<and> (memberOf params ''cid'' = Some (JStr c) \<longrightarrow> \<not> isValidCid (trim c) \<longrightarrow>
        download fetchBody writeFile (Some params) w =
          (Inl (Error (if \<not> synapse_isConnected w then ''Synapse not connected''
                       else if c = [] then ''Missing required parameter: cid''
                       else if \<not> truthy (memberOf params ''outputPath'')
                       then ''Missing required parameter: outputPath''
                       else ''Invalid CID format: '' @ trim c)), w))
   \<and> (synapse_isConnected w \<longrightarrow> absent = None \<or> absent = Some JNull \<longrightarrow>
        (\<exists>m. download fetchBody writeFile absent w = (Inl (TypeError m), w)))
   \<and> (synapse_isConnected w \<longrightarrow> memberOf params ''cid'' = Some v \<longrightarrow> (\<forall>c. v \<noteq> JStr c) \<longrightarrow>
        (\<exists>m. download fetchBody writeFile (Some params) w =
          (Inl (if \<not> truthy (Some v) then Error ''Missing required parameter: cid''
                else if \<not> truthy (memberOf params ''outputPath'')
                then Error ''Missing required parameter: outputPath''
                else TypeError m), w)))"
  using isValidCid_shape [of s]
    download_invalid_error [of params c fetchBody writeFile w]
    download_absent_params [of w absent fetchBody writeFile]
    download_cid_not_string [of w params v fetchBody writeFile]
  by blast

text \<open>A connected wrapper asked for the cid \<open>bafy\<close>, padded with blanks.\<close>

theorem isValidCid_shape_and_download_guard_witness:
  "download (\<lambda>url. Inr []) (\<lambda>path data. Inr ())
     (Some (JObj [(''cid'', JStr '' bafy ''), (''outputPath'', JStr ''/tmp/out.bin'')]))
     \<lparr>synapse_isConnected = True, gateway_requests = [], files_written = []\<rparr>
   = (Inl (Error ''Invalid CID format: bafy''),
      \<lparr>synapse_isConnected = True, gateway_requests = [], files_written = []\<rparr>)"
proof -
  have t: "trim '' bafy '' = ''bafy''"
    by (simp add: trim_def isWhiteSpace_def)
  have "\<not> isValidCid ''bafy''"
    by code_simp
  with t show ?thesis
    using isValidCid_shape_and_download_guard
      [of _ "JObj [(''cid'', JStr '' bafy ''), (''outputPath'', JStr ''/tmp/out.bin'')]" "'' bafy ''"
          "(\<lambda>url. Inr [])" "(\<lambda>path data. Inr ())"
          "\<lparr>synapse_isConnected = True, gateway_requests = [], files_written = []\<rparr>"
          None "JStr '' bafy ''"]
    by (simp add: memberOf_def truthy_def)
qed

text \<open>
  Claim C10 as stated fails on a wrapper that is not connected: the trimmed cid
  \<open>test\<close> is not accepted, and the download fails with \<open>Synapse not connected\<close>,
  the error of the first guard, as the repository's own test of the wrapper expects.
\<close>

theorem download_invalid_cid_error_counterexample:
  "\<not> isValidCid (trim ''test'')
   \<and> download (\<lambda>url. Inr []) (\<lambda>path data. Inr ())
       (Some (JObj [(''cid'', JStr ''test''), (''outputPath'', JStr ''/tmp/test.mp4'')]))
       \<lparr>synapse_isConnected = False, gateway_requests = [], files_written = []\<rparr>
     = (Inl (Error ''Synapse not connected''),
        \<lparr>synapse_isConnected = False, gateway_requests = [], files_written = []\<rparr>)"
proof -
  have "trim ''test'' = ''test''"
    by (simp add: trim_def isWhiteSpace_def)
  moreover have "\<not> isValidCid ''test''"
    by code_simp
  ultimately show ?thesis
    by (simp add: download_def throw_def)
qed


section \<open>Properties of the metadata codec\<close>


lemma getProperty_not_null:
  "v \<noteq> JNull \<Longrightarrow> getProperty (Some v) name = Inr (memberOf v name)"
  by (simp add: getProperty_def)

text \<open>
  Claim C4 (as amended). What \<open>deserializeHybridMetadata\<close> does on every text: an error
  of \<open>JSON.parse\<close> is passed on; the literal \<open>null\<close> fails with a \<open>TypeError\<close>; on any
  other parsed value the version is checked first, and whenever the \<open>version\<close> member is
  not the string \<open>hybrid-v1\<close> the call fails, whatever else is missing: with the
  unsupported-version error that shows the version as a template string renders it
  (\<open>undefined\<close> when the member is absent, the string itself when it is another string),
  or with the \<open>TypeError\<close> of that rendering when the version cannot be turned into a
  string, as for an object that has a member named \<open>toString\<close>. With the right version
  the call fails with the missing-fields error when one of \<open>encryptedKey\<close>, \<open>keyHash\<close>,
  \<open>iv\<close> is absent or falsy (an empty string, zero, \<open>false\<close>, \<open>null\<close>); otherwise it
  succeeds and returns the parsed value itself, every member it does not know included.
\<close>

theorem deserializeHybridMetadata_cases:
  "(JSON_parse metadataJson = Inl e \<longrightarrow>
      deserializeHybridMetadata numberToString JSON_parse metadataJson = Inl e)
   \<and> (JSON_parse metadataJson = Inr JNull \<longrightarrow>
        (\<exists>m. deserializeHybridMetadata numberToString JSON_parse metadataJson = Inl (TypeError m)))
   \<and> (JSON_parse metadataJson = Inr parsed \<longrightarrow> parsed \<noteq> JNull \<longrightarrow>
        deserializeHybridMetadata numberToString JSON_parse metadataJson =
          (if memberOf parsed ''version'' \<noteq> Some (JStr ''hybrid-v1'')
           then (case templateString numberToString (memberOf parsed ''version'') of
                   Inl typeError \<Rightarrow> Inl typeError
                 | Inr shown \<Rightarrow>
                     Inl (Error (''Unsupported hybrid encryption version: '' @ shown)))
           else if truthy (memberOf parsed ''encryptedKey'') \<and> truthy (memberOf parsed ''keyHash'')
                   \<and> truthy (memberOf parsed ''iv'')
           then Inr parsed
           else Inl (Error ''Invalid hybrid encryption metadata: missing required fields'')))
   \<and> (JSON_parse metadataJson = Inr parsed \<longrightarrow> parsed \<noteq> JNull \<longrightarrow>
        memberOf parsed ''version'' = None \<longrightarrow>
        deserializeHybridMetadata numberToString JSON_parse metadataJson =
          Inl (Error ''Unsupported hybrid encryption version: undefined''))
   \<and> (JSON_parse metadataJson = Inr parsed \<longrightarrow>
        memberOf parsed ''version'' = Some (JStr v) \<longrightarrow> v \<noteq> ''hybrid-v1'' \<longrightarrow>
        deserializeHybridMetadata numberToString JSON_parse metadataJson =
          Inl (Error (''Unsupported hybrid encryption version: '' @ v)))
   \<and> (JSON_parse metadataJson = Inr parsed \<longrightarrow>
        memberOf parsed ''version'' = Some (JObj members) \<longrightarrow>
        deserializeHybridMetadata numberToString JSON_parse metadataJson =
          (if map_of members ''toString'' = None
           then Inl (Error ''Unsupported hybrid encryption version: [object Object]'')
           else Inl (TypeError ''Cannot convert object to primitive value'')))"
proof -
  have general: "deserializeHybridMetadata numberToString JSON_parse metadataJson =
          (if memberOf parsed ''version'' \<noteq> Some (JStr ''hybrid-v1'')
           then (case templateString numberToString (memberOf parsed ''version'') of
                   Inl typeError \<Rightarrow> Inl typeError
                 | Inr shown \<Rightarrow>
                     Inl (Error (''Unsupported hybrid encryption version: '' @ shown)))
           else if truthy (memberOf parsed ''encryptedKey'') \<and> truthy (memberOf parsed ''keyHash'')
                   \<and> truthy (memberOf parsed ''iv'')
           then Inr parsed
           else Inl (Error ''Invalid hybrid encryption metadata: missing required fields''))"
    if "JSON_parse metadataJson = Inr parsed" "parsed \<noteq> JNull"
    using that by (simp add: deserializeHybridMetadata_def getProperty_not_null)
  have not_null: "parsed \<noteq> JNull" if "memberOf parsed ''version'' = Some x" for x
    using that by (auto simp: memberOf_def)
  show ?thesis
  proof (intro conjI impI)
    assume "JSON_parse metadataJson = Inl e"
    then show "deserializeHybridMetadata numberToString JSON_parse metadataJson = Inl e"
      by (simp add: deserializeHybridMetadata_def)
  next
    assume "JSON_parse metadataJson = Inr JNull"
    then show "\<exists>m. deserializeHybridMetadata numberToString JSON_parse metadataJson = Inl (TypeError m)"
      by (simp add: deserializeHybridMetadata_def getProperty_def cannotRead_def)
  next
    assume "JSON_parse metadataJson = Inr parsed" and "parsed \<noteq> JNull"
    then show "deserializeHybridMetadata numberToString JSON_parse metadataJson =
          (if memberOf parsed ''version'' \<noteq> Some (JStr ''hybrid-v1'')
           then (case templateString numberToString (memberOf parsed ''version'') of
                   Inl typeError \<Rightarrow> Inl typeError
                 | Inr shown \<Rightarrow>
                     Inl (Error (''Unsupported hybrid encryption version: '' @ shown)))
           else if truthy (memberOf parsed ''encryptedKey'') \<and> truthy (memberOf parsed ''keyHash'')
                   \<and> truthy (memberOf parsed ''iv'')
           then Inr parsed
           else Inl (Error ''Invalid hybrid encryption metadata: missing required fields''))"
      by (rule general)
  next
    assume "JSON_parse metadataJson = Inr parsed" and "parsed \<noteq> JNull"
      and "memberOf parsed ''version'' = None"
    then show "deserializeHybridMetadata numberToString JSON_parse metadataJson =
          Inl (Error ''Unsupported hybrid encryption version: undefined'')"
      by (simp add: general templateString_def)
  next
    assume "JSON_parse metadataJson = Inr parsed"
      and v: "memberOf parsed ''version'' = Some (JStr v)" and "v \<noteq> ''hybrid-v1''"
    then show "deserializeHybridMetadata numberToString JSON_parse metadataJson =
          Inl (Error (''Unsupported hybrid encryption version: '' @ v))"
      using not_null [OF v] by (simp add: general templateString_def)
  next
    assume "JSON_parse metadataJson = Inr parsed"
      and v: "memberOf parsed ''version'' = Some (JObj members)"
    then show "deserializeHybridMetadata numberToString JSON_parse metadataJson =
          (if map_of members ''toString'' = None
           then Inl (Error ''Unsupported hybrid encryption version: [object Object]'')
           else Inl (TypeError ''Cannot convert object to primitive value''))"
      using not_null [OF v] by (auto simp: general templateString_def)
  qed
qed

text \<open>A metadata text with a member the codec does not know, kept in the result.\<close>

theorem deserializeHybridMetadata_cases_witness:
  \<open>deserializeHybridMetadata (\<lambda>n. ''7'')
     (\<lambda>t. if t = ''{"version":"hybrid-v1","encryptedKey":"k","keyHash":"h","iv":"AAAA","note":7}''
          then Inr (JObj [(''version'', JStr ''hybrid-v1''), (''encryptedKey'', JStr ''k''),
                          (''keyHash'', JStr ''h''), (''iv'', JStr ''AAAA''),
                          (''note'', JNum (Finite False 7 0))])
          else Inl (Error ''Unexpected token''))
     ''{"version":"hybrid-v1","encryptedKey":"k","keyHash":"h","iv":"AAAA","note":7}''
   = Inr (JObj [(''version'', JStr ''hybrid-v1''), (''encryptedKey'', JStr ''k''),
                (''keyHash'', JStr ''h''), (''iv'', JStr ''AAAA''),
                (''note'', JNum (Finite False 7 0))])\<close>
  using deserializeHybridMetadata_cases
    [of \<open>(\<lambda>t. if t = ''{"version":"hybrid-v1","encryptedKey":"k","keyHash":"h","iv":"AAAA","note":7}''
          then Inr (JObj [(''version'', JStr ''hybrid-v1''), (''encryptedKey'', JStr ''k''),
                          (''keyHash'', JStr ''h''), (''iv'', JStr ''AAAA''),
                          (''note'', JNum (Finite False 7 0))])
          else Inl (Error ''Unexpected token''))\<close>
        \<open>''{"version":"hybrid-v1","encryptedKey":"k","keyHash":"h","iv":"AAAA","note":7}''\<close>
        _ \<open>(\<lambda>n. ''7'')\<close>
        \<open>JObj [(''version'', JStr ''hybrid-v1''), (''encryptedKey'', JStr ''k''),
                (''keyHash'', JStr ''h''), (''iv'', JStr ''AAAA''),
                (''note'', JNum (Finite False 7 0))]\<close>]
  by (simp add: memberOf_def truthy_def)

text \<open>
  Claim C4 as stated fails on three texts. In the first all three required members are
  absent and the version is another one: the call fails with the unsupported-version
  error, not with the missing-fields error. In the second no member is absent and the
  version is the supported one, but \<open>encryptedKey\<close> is the empty string: the call does
  not succeed, it fails with the missing-fields error. In the third the version differs
  from the supported tag, being an object with a member named \<open>toString\<close>: the call
  fails with a \<open>TypeError\<close>, not with the unsupported-version error.
\<close>

theorem deserializeHybridMetadata_counterexample:
  \<open>deserializeHybridMetadata (\<lambda>n. ''1'')
     (\<lambda>t. if t = ''{"version":"hybrid-v2"}''
          then Inr (JObj [(''version'', JStr ''hybrid-v2'')])
          else Inl (Error ''Unexpected token''))
     ''{"version":"hybrid-v2"}''
   = Inl (Error ''Unsupported hybrid encryption version: hybrid-v2'')
   \<and> deserializeHybridMetadata (\<lambda>n. ''1'')
     (\<lambda>t. if t = ''{"version":"hybrid-v1","encryptedKey":"","keyHash":"h","iv":"AAAA"}''
          then Inr (JObj [(''version'', JStr ''hybrid-v1''), (''encryptedKey'', JStr ''''),
                          (''keyHash'', JStr ''h''), (''iv'', JStr ''AAAA'')])
          else Inl (Error ''Unexpected token''))
     ''{"version":"hybrid-v1","encryptedKey":"","keyHash":"h","iv":"AAAA"}''
   = Inl (Error ''Invalid hybrid encryption metadata: missing required fields'')
   \<and> deserializeHybridMetadata (\<lambda>n. ''1'')
     (\<lambda>t. if t = ''{"version":{"toString":1},"encryptedKey":"k","keyHash":"h","iv":"AAAA"}''
          then Inr (JObj [(''version'', JObj [(''toString'', JNum (Finite False 1 0))]),
                          (''encryptedKey'', JStr ''k''),
                          (''keyHash'', JStr ''h''), (''iv'', JStr ''AAAA'')])
          else Inl (Error ''Unexpected token''))
     ''{"version":{"toString":1},"encryptedKey":"k","keyHash":"h","iv":"AAAA"}''
   = Inl (TypeError ''Cannot convert object to primitive value'')\<close>
  by (simp add: deserializeHybridMetadata_def getProperty_def memberOf_def truthy_def
      templateString_def)


section \<open>Properties of the Lit client management\<close>


lemma initLitClient_resume_cases:
  "initLitClient_resume created manager w =
     (case created of
        Inl e \<Rightarrow> (Inl e, w\<lparr>litClient := None, authManager := None, initPromise := None,
                           initPending := initPending w - 1\<rparr>)
      | Inr client \<Rightarrow>
          (case manager of
             Inl e \<Rightarrow> (Inl e, w\<lparr>litClient := None, authManager := None, initPromise := None,
                                initPending := initPending w - 1\<rparr>)
           | Inr m \<Rightarrow> (Inr client, w\<lparr>litClient := Some client, authManager := Some m,
                                      initPromise := None, initPending := initPending w - 1\<rparr>)))"
  by (simp add: initLitClient_resume_def tryFinally_def tryCatch_def andThen_def liftResult_def
      modify_def succeed_def throw_def split: sum.splits)

lemma inv_call: "singleFlightInv w \<Longrightarrow> singleFlightInv (snd (initLitClient_call w))"
  by (auto simp: singleFlightInv_def initLitClient_call_def split: option.splits)

lemma inv_resume:
  "singleFlightInv w \<Longrightarrow> initPending w \<noteq> 0 \<Longrightarrow>
   singleFlightInv (snd (initLitClient_resume created manager w))"
  by (auto simp: singleFlightInv_def initLitClient_resume_cases split: option.splits sum.splits)

lemma inv_runInit:
  "singleFlightInv w \<Longrightarrow> runInit events w = Some w' \<Longrightarrow> singleFlightInv w'"
proof (induction events arbitrary: w)
  case Nil
  then show ?case by simp
next
  case (Cons event events)
  show ?case
  proof (cases event)
    case CallInit
    with Cons.prems Cons.IH [of "snd (initLitClient_call w)"] show ?thesis
      by (simp add: inv_call)
  next
    case (Settle created manager)
    with Cons.prems Cons.IH [of "snd (initLitClient_resume created manager w)"] show ?thesis
      by (simp add: inv_resume split: if_splits)
  qed
qed

lemma inv_moduleLoaded: "singleFlightInv moduleLoaded"
  by (simp add: singleFlightInv_def moduleLoaded_def)

text \<open>
  Claim C9. A call of \<open>initLitClient\<close> made while the client and the auth manager are
  set returns the existing client and changes nothing. A call made while they are not
  both set and an initialization is in flight returns the promise of that
  initialization and changes nothing: no second one is started. And in every history of
  calls and settlements from the loaded module, at most one initialization is pending at
  any time, one is pending exactly while \<open>initPromise\<close> is set, none is pending while the
  client is connected, and a call starts one only when none is pending and no client is
  connected. The histories are those of \<open>initLitClient\<close> itself.
\<close>

theorem initLitClient_single_flight:
  "(litClient w = Some client \<longrightarrow> authManager w = Some manager \<longrightarrow>
      initLitClient_call w = (Existing client, w))
   \<and> (\<not> isLitClientConnected w \<longrightarrow> initPromise w = Some p \<longrightarrow>
      initLitClient_call w = (Joined p, w))
   \<and> (runInit events moduleLoaded = Some w' \<longrightarrow>
        initPending w' \<le> 1
      \<and> (initPending w' = 1) = (initPromise w' \<noteq> None)
      \<and> (isLitClientConnected w' \<longrightarrow> initPending w' = 0)
      \<and> (fst (initLitClient_call w') = Started q \<longrightarrow>
           initPending w' = 0 \<and> \<not> isLitClientConnected w'))"
proof (intro conjI impI)
  assume "litClient w = Some client" "authManager w = Some manager"
  then show "initLitClient_call w = (Existing client, w)"
    by (simp add: initLitClient_call_def)
next
  assume "\<not> isLitClientConnected w" "initPromise w = Some p"
  then show "initLitClient_call w = (Joined p, w)"
    by (auto simp: initLitClient_call_def isLitClientConnected_def split: option.splits)
next
  assume run: "runInit events moduleLoaded = Some w'"
  have inv: "singleFlightInv w'"
    using inv_moduleLoaded run by (rule inv_runInit)
  from inv show "initPending w' \<le> 1"
    by (simp add: singleFlightInv_def split: option.splits)
  from inv show "(initPending w' = 1) = (initPromise w' \<noteq> None)"
    by (simp add: singleFlightInv_def split: option.splits)
  {
    assume "isLitClientConnected w'"
    with inv show "initPending w' = 0"
      by (auto simp: singleFlightInv_def isLitClientConnected_def split: option.splits)
  }
  {
    assume "fst (initLitClient_call w') = Started q"
    with inv show "initPending w' = 0" "\<not> isLitClientConnected w'"
      by (auto simp: singleFlightInv_def isLitClientConnected_def initLitClient_call_def
          split: option.splits)
  }
qed

text \<open>
  Three calls, the second while the first initialization is in flight, the third after
  it has settled: one client creation in all.
\<close>

theorem initLitClient_single_flight_witness:
  "runInit [CallInit, CallInit, Settle (Inr 1) (Inr 2), CallInit] moduleLoaded
     = Some (moduleLoaded\<lparr>litClient := Some 1, authManager := Some 2, initStarted := 1,
                           adapter_calls := [CallCreateLitClient]\<rparr>)
   \<and> initLitClient_call
        (moduleLoaded\<lparr>initPromise := Some 0, initStarted := 1, initPending := 1,
                       adapter_calls := [CallCreateLitClient]\<rparr>)
     = (Joined 0, moduleLoaded\<lparr>initPromise := Some 0, initStarted := 1, initPending := 1,
                                 adapter_calls := [CallCreateLitClient]\<rparr>)"
  using initLitClient_single_flight
    [of "moduleLoaded\<lparr>initPromise := Some 0, initStarted := 1, initPending := 1,
                       adapter_calls := [CallCreateLitClient]\<rparr>" _ _ 0
        "[CallInit, CallInit, Settle (Inr 1) (Inr 2), CallInit]"
        "moduleLoaded\<lparr>litClient := Some 1, authManager := Some 2, initStarted := 1,
                       adapter_calls := [CallCreateLitClient]\<rparr>"]
  by (simp add: moduleLoaded_def initLitClient_call_def initLitClient_resume_cases
      isLitClientConnected_def)


section \<open>Properties of the wrapper's connection state\<close>


lemma jsString_TypeError:
  "jsString numberToString v = Inl e \<Longrightarrow> \<exists>m. e = TypeError m"
  "joinElements numberToString xs = Inl e \<Longrightarrow> \<exists>m. e = TypeError m"
  by (induction numberToString v and numberToString xs arbitrary: e and e
      rule: jsString_joinElements.induct)
     (auto split: option.splits sum.splits if_splits)

lemma getProperty_absent:
  assumes "params = None \<or> params = Some JNull"
  shows "\<exists>m. getProperty params name = Inl (TypeError m)"
  using assms by (auto simp: getProperty_def cannotRead_def)

lemma getProperty_present: "p \<noteq> JNull \<Longrightarrow> getProperty (Some p) name = Inr (memberOf p name)"
  by (simp add: getProperty_def)

lemma connect_before_try:
  assumes "throwsBeforeTry numberToString params"
  shows "\<exists>m. connect numberToString P params now w = (Inl (TypeError m), w)"
proof (cases "params = None \<or> params = Some JNull")
  case True
  from getProperty_absent [OF True, of "''network''"] show ?thesis
    by (auto simp: connect_def andThen_def liftResult_def)
next
  case False
  then obtain p where p: "params = Some p" "p \<noteq> JNull" by auto
  with assms obtain err where d: "connectDebug p"
    and l: "jsString numberToString (connectNetwork p) = Inl err"
    by (cases "jsString numberToString (connectNetwork p)") (auto simp: throwsBeforeTry_def)
  from jsString_TypeError(1) [OF l]
  obtain m where "err = TypeError m" by auto
  with p d l show ?thesis
    by (simp add: connect_def andThen_def liftResult_def getProperty_present Let_def
        connectDebug_def connectNetwork_def logTemplate_def throw_def)
qed

lemma connect_cases:
  assumes "\<not> throwsBeforeTry numberToString (Some p)"
  shows "connect numberToString P (Some p) now w =
     (let network = connectNetwork p;
          w1 = w\<lparr>adapter_calls := adapter_calls w @ [CallCreateLitClient]\<rparr>
      in case createLitClient P of
           Inl e \<Rightarrow> (Inl (Error (''Failed to connect to Lit Protocol: '' @ errorMessage e)),
                     w1\<lparr>w_isConnected := False, w_client := None, w_authManager := None\<rparr>)
         | Inr client \<Rightarrow>
             (case createAuthManager P of
                Inl e \<Rightarrow> (Inl (Error (''Failed to connect to Lit Protocol: '' @ errorMessage e)),
                          w1\<lparr>w_client := None, w_isConnected := False, w_authManager := None\<rparr>)
              | Inr manager \<Rightarrow>
                  (Inr \<lparr>cr_connected = True, cr_network = network, cr_nodeCount = 1\<rparr>,
                   w1\<lparr>w_client := Some client, w_authManager := Some manager, w_isConnected := True,
                      w_network := network, w_nodeCount := 1,
                      w_sessionExpiry := Some (now + 60 * 60 * 1000)\<rparr>)))"
proof -
  from assms have p: "p \<noteq> JNull"
    and l: "\<not> connectDebug p \<or> (\<exists>shown. jsString numberToString (connectNetwork p) = Inr shown)"
    by (cases "jsString numberToString (connectNetwork p)"; simp add: throwsBeforeTry_def)+
  have pre: "(if truthy (Some (coalesce (memberOf p ''debug'') (JBool False)))
              then logTemplate numberToString (coalesce (memberOf p ''network'') (JStr ''datil-dev''))
              else succeed ()) w = (Inr (), w)"
    using l by (auto simp: connectDebug_def connectNetwork_def logTemplate_def succeed_def)
  show ?thesis
    using p pre
    by (simp add: connect_def getProperty_present sdk_createLitClient_def tryCatch_def
        andThen_def liftResult_def modify_def succeed_def throw_def Let_def connectNetwork_def
        split: sum.splits)
qed

lemma connect_failure:
  assumes "fst (connect numberToString P params now w) = Inl (Error msg)"
  shows "\<exists>cause. msg = ''Failed to connect to Lit Protocol: '' @ cause"
    and "\<not> w_isConnected (snd (connect numberToString P params now w))"
    and "w_client (snd (connect numberToString P params now w)) = None"
    and "w_authManager (snd (connect numberToString P params now w)) = None"
proof -
  have n: "\<not> throwsBeforeTry numberToString params"
    using assms connect_before_try [of numberToString params P now w] by auto
  then obtain p where p: "params = Some p"
    by (cases params) (auto simp: throwsBeforeTry_def)
  from n p have c: "\<not> throwsBeforeTry numberToString (Some p)" by simp
  from assms show "\<exists>cause. msg = ''Failed to connect to Lit Protocol: '' @ cause"
    and "\<not> w_isConnected (snd (connect numberToString P params now w))"
    and "w_client (snd (connect numberToString P params now w)) = None"
    and "w_authManager (snd (connect numberToString P params now w)) = None"
    unfolding p by (auto simp: connect_cases [OF c] Let_def split: sum.splits)
qed

lemma connect_TypeError_unchanged:
  assumes "fst (connect numberToString P params now w) = Inl (TypeError m)"
  shows "snd (connect numberToString P params now w) = w"
proof (cases "throwsBeforeTry numberToString params")
  case True
  from connect_before_try [OF True, of P now w] show ?thesis by auto
next
  case False
  then obtain p where p: "params = Some p"
    by (cases params) (auto simp: throwsBeforeTry_def)
  from False p have c: "\<not> throwsBeforeTry numberToString (Some p)" by simp
  from assms show ?thesis
    unfolding p by (auto simp: connect_cases [OF c] Let_def split: sum.splits)
qed

lemma initLitClient_failure:
  assumes "fst (initLitClient P w) = Inl e"
  shows "litClient (snd (initLitClient P w)) = None"
    and "authManager (snd (initLitClient P w)) = None"
    and "initPromise (snd (initLitClient P w)) = None"
  using assms
  by (auto simp: initLitClient_def initLitClient_call_def initLitClient_resume_cases
      split: option.splits sum.splits)


lemmas example_defs =
  toyPlatform_def createLitWrapper_def moduleLoaded_def crypto_state.defs lit_wrapper.defs

text \<open>
  Claim C8 (as amended). When \<open>connect\<close> fails inside its \<open>try\<close>, which it reports as the
  error \<open>Failed to connect to Lit Protocol\<close>, the wrapper's connected flag, client handle
  and auth manager are cleared, \<open>isConnected\<close> is false afterwards and \<open>getSession\<close>
  reports no active session. When \<open>connect\<close> throws before its \<open>try\<close> (it is called
  without a params object, \<open>undefined\<close> or \<open>null\<close>, or with \<open>debug\<close> on and a network that
  cannot be shown in the message), it fails with a \<open>TypeError\<close> and leaves the state as it
  was; no other failure of \<open>connect\<close> is a \<open>TypeError\<close>. When an \<open>initLitClient\<close>
  initialization fails, the module's \<open>litClient\<close>, \<open>authManager\<close> and \<open>initPromise\<close> are
  all cleared.
\<close>

theorem connect_failure_resets:
  "(fst (connect numberToString P params now w) = Inl (Error msg) \<longrightarrow>
        (\<exists>cause. msg = ''Failed to connect to Lit Protocol: '' @ cause)
      \<and> \<not> w_isConnected (snd (connect numberToString P params now w))
      \<and> w_client (snd (connect numberToString P params now w)) = None
      \<and> w_authManager (snd (connect numberToString P params now w)) = None
      \<and> \<not> isConnected (snd (connect numberToString P params now w))
      \<and> \<not> sr_active (getSession t (snd (connect numberToString P params now w))))
   \<and> (throwsBeforeTry numberToString params \<longrightarrow>
        (\<exists>m. connect numberToString P params now w = (Inl (TypeError m), w)))
   \<and> (fst (connect numberToString P params now w) = Inl (TypeError m') \<longrightarrow>
        throwsBeforeTry numberToString params
      \<and> snd (connect numberToString P params now w) = w)
   \<and> fst (connect numberToString P params now w) \<noteq> Inl (Thrown v)
   \<and> (fst (initLitClient P m) = Inl e' \<longrightarrow>
        litClient (snd (initLitClient P m)) = None
      \<and> authManager (snd (initLitClient P m)) = None
      \<and> initPromise (snd (initLitClient P m)) = None)"
proof (intro conjI impI)
  assume f: "fst (connect numberToString P params now w) = Inl (Error msg)"
  from connect_failure [OF f]
  show "\<exists>cause. msg = ''Failed to connect to Lit Protocol: '' @ cause"
    and "\<not> w_isConnected (snd (connect numberToString P params now w))"
    and "w_client (snd (connect numberToString P params now w)) = None"
    and "w_authManager (snd (connect numberToString P params now w)) = None"
    by simp_all
  from connect_failure(2) [OF f]
  show "\<not> isConnected (snd (connect numberToString P params now w))"
    by (simp add: isConnected_def)
  then show "\<not> sr_active (getSession t (snd (connect numberToString P params now w)))"
    by (simp add: getSession_def)
next
  assume "throwsBeforeTry numberToString params"
  then show "\<exists>m. connect numberToString P params now w = (Inl (TypeError m), w)"
    by (rule connect_before_try)
next
  assume f: "fst (connect numberToString P params now w) = Inl (TypeError m')"
  then show "snd (connect numberToString P params now w) = w"
    by (rule connect_TypeError_unchanged)
  show "throwsBeforeTry numberToString params"
  proof (rule ccontr)
    assume n: "\<not> throwsBeforeTry numberToString params"
    then obtain p where p: "params = Some p"
      by (cases params) (auto simp: throwsBeforeTry_def)
    from n p have c: "\<not> throwsBeforeTry numberToString (Some p)" by simp
    from f show False
      unfolding p by (auto simp: connect_cases [OF c] Let_def split: sum.splits)
  qed
next
  show "fst (connect numberToString P params now w) \<noteq> Inl (Thrown v)"
  proof (cases "throwsBeforeTry numberToString params")
    case True
    from connect_before_try [OF True, of P now w] show ?thesis by auto
  next
    case False
    then obtain p where p: "params = Some p"
      by (cases params) (auto simp: throwsBeforeTry_def)
    from False p have c: "\<not> throwsBeforeTry numberToString (Some p)" by simp
    show ?thesis
      unfolding p by (auto simp: connect_cases [OF c] Let_def split: sum.splits)
  qed
next
  assume f: "fst (initLitClient P m) = Inl e'"
  from initLitClient_failure [OF f] show "litClient (snd (initLitClient P m)) = None"
    and "authManager (snd (initLitClient P m)) = None"
    and "initPromise (snd (initLitClient P m)) = None"
    by simp_all
qed

text \<open>A first \<open>connect\<close> on a new wrapper whose auth-manager creation throws.\<close>

theorem connect_failure_resets_witness:
  "connect (\<lambda>n. ''1'') (toyPlatform\<lparr>createAuthManager := Inl (Error ''storage unavailable'')\<rparr>)
     (Some (JObj [(''network'', JStr ''datil-dev'')])) 1000
     (createLitWrapper moduleLoaded)
   = (Inl (Error ''Failed to connect to Lit Protocol: storage unavailable''),
      (createLitWrapper moduleLoaded)\<lparr>adapter_calls := [CallCreateLitClient]\<rparr>)"
proof -
  have n: "\<not> throwsBeforeTry (\<lambda>n. ''1'') (Some (JObj [(''network'', JStr ''datil-dev'')]))"
    by (simp add: throwsBeforeTry_def connectDebug_def coalesce_def memberOf_def truthy_def)
  have c: "connect (\<lambda>n. ''1'') (toyPlatform\<lparr>createAuthManager := Inl (Error ''storage unavailable'')\<rparr>)
     (Some (JObj [(''network'', JStr ''datil-dev'')])) 1000
     (createLitWrapper moduleLoaded)
   = (Inl (Error ''Failed to connect to Lit Protocol: storage unavailable''),
      (createLitWrapper moduleLoaded)\<lparr>adapter_calls := [CallCreateLitClient],
         w_client := None, w_isConnected := False, w_authManager := None\<rparr>)"
    by (simp add: connect_cases [OF n] example_defs Let_def)
  from connect_failure_resets
    [of "\<lambda>n. ''1''" "toyPlatform\<lparr>createAuthManager := Inl (Error ''storage unavailable'')\<rparr>"
        "Some (JObj [(''network'', JStr ''datil-dev'')])" 1000
        "createLitWrapper moduleLoaded"
        "''Failed to connect to Lit Protocol: storage unavailable''"]
  have "\<not> w_isConnected (snd (connect (\<lambda>n. ''1'')
            (toyPlatform\<lparr>createAuthManager := Inl (Error ''storage unavailable'')\<rparr>)
            (Some (JObj [(''network'', JStr ''datil-dev'')])) 1000
            (createLitWrapper moduleLoaded)))"
    by (simp add: c)
  with c show ?thesis
    by (simp add: example_defs)
qed

text \<open>
  Claim C8 as stated fails for a wrapper that connected before: the module client is
  initialized and the wrapper connects at time 1000. A second \<open>connect\<close> at time 2000
  whose client creation fails leaves the session expiry of the first connection set, and
  the module's client and auth manager, which this \<open>connect\<close> never touches. And a
  \<open>connect\<close> that is called without params on the connected wrapper fails and leaves it
  connected.
\<close>

theorem connect_failure_resets_counterexample:
  "fst (connect (\<lambda>n. ''1'') (toyPlatform\<lparr>createLitClient := Inl (Error ''network unreachable'')\<rparr>)
          (Some (JObj [])) 2000
          (snd (connect (\<lambda>n. ''1'') toyPlatform (Some (JObj [])) 1000
             (snd (initLitClient toyPlatform (createLitWrapper moduleLoaded))))))
     = Inl (Error ''Failed to connect to Lit Protocol: network unreachable'')
   \<and> w_sessionExpiry
       (snd (connect (\<lambda>n. ''1'') (toyPlatform\<lparr>createLitClient := Inl (Error ''network unreachable'')\<rparr>)
          (Some (JObj [])) 2000
          (snd (connect (\<lambda>n. ''1'') toyPlatform (Some (JObj [])) 1000
             (snd (initLitClient toyPlatform (createLitWrapper moduleLoaded)))))))
     = Some 3601000
   \<and> litClient
       (snd (connect (\<lambda>n. ''1'') (toyPlatform\<lparr>createLitClient := Inl (Error ''network unreachable'')\<rparr>)
          (Some (JObj [])) 2000
          (snd (connect (\<lambda>n. ''1'') toyPlatform (Some (JObj [])) 1000
             (snd (initLitClient toyPlatform (createLitWrapper moduleLoaded)))))))
     = Some 1
   \<and> authManager
       (snd (connect (\<lambda>n. ''1'') (toyPlatform\<lparr>createLitClient := Inl (Error ''network unreachable'')\<rparr>)
          (Some (JObj [])) 2000
          (snd (connect (\<lambda>n. ''1'') toyPlatform (Some (JObj [])) 1000
             (snd (initLitClient toyPlatform (createLitWrapper moduleLoaded)))))))
     = Some 2
   \<and> fst (connect (\<lambda>n. ''1'') toyPlatform None 2000
          (snd (connect (\<lambda>n. ''1'') toyPlatform (Some (JObj [])) 1000
             (snd (initLitClient toyPlatform (createLitWrapper moduleLoaded))))))
     = Inl (TypeError ''Cannot read properties of undefined (reading 'network')'')
   \<and> isConnected
       (snd (connect (\<lambda>n. ''1'') toyPlatform None 2000
          (snd (connect (\<lambda>n. ''1'') toyPlatform (Some (JObj [])) 1000
             (snd (initLitClient toyPlatform (createLitWrapper moduleLoaded)))))))"
proof -
  have n: "\<not> throwsBeforeTry (\<lambda>n. ''1'') (Some (JObj []))"
    by (simp add: throwsBeforeTry_def connectDebug_def coalesce_def memberOf_def truthy_def)
  have u: "connect (\<lambda>n. ''1'') P None now w
      = (Inl (TypeError ''Cannot read properties of undefined (reading 'network')''), w)"
    for P now and w :: lit_wrapper
    by (simp add: connect_def andThen_def liftResult_def getProperty_def cannotRead_def quoted_def)
  show ?thesis
    by (simp add: u connect_cases [OF n] initLitClient_def initLitClient_call_def
        initLitClient_resume_cases example_defs Let_def connectNetwork_def coalesce_def
        memberOf_def isConnected_def isLitClientConnected_def)
qed


section \<open>Properties of the wrapper's encrypt\<close>

lemma encryptWith_absent_params:
  assumes "params = None \<or> params = Some JNull"
  shows "\<exists>m. encryptWith numberToString P client params w = (Inl (TypeError m), w)"
  using getProperty_absent [OF assms, of "''data''"]
  by (auto simp: encryptWith_def andThen_def liftResult_def)

lemma encryptWith_emptyPolicy:
  assumes "p \<noteq> JNull" "emptyPolicy (Some p)"
  shows "encryptWith numberToString P client (Some p) w =
     (Inl (Error (if dataGiven (Some p) then ''Missing required parameter: accessControlConditions''
                  else ''Missing required parameter: data'')), w)"
  using assms
  by (auto simp: encryptWith_def getProperty_present andThen_def liftResult_def emptyPolicy_def
      dataGiven_def throw_def Let_def truthy_def lengthIsZero_def split: option.splits)

lemma encrypt_not_connected:
  assumes "\<not> (isConnected w \<and> w_client w \<noteq> None)"
  shows "encrypt numberToString P params w = (Inl (Error ''Lit Protocol not connected''), w)"
  using assms by (auto simp: encrypt_def throw_def split: option.splits)

lemma encrypt_connected:
  assumes "isConnected w" "w_client w = Some client"
  shows "encrypt numberToString P params w = encryptWith numberToString P client params w"
  using assms by (simp add: encrypt_def)

lemma encrypt_shared_not_connected:
  assumes "\<not> isConnected_shared w"
  shows "encrypt_shared numberToString P params w = (Inl (Error ''Lit Protocol not connected''), w)"
  using assms by (simp add: encrypt_shared_def throw_def)

lemma encrypt_shared_connected:
  assumes "isConnected_shared w"
  shows "\<exists>client. litClient w = Some client
           \<and> encrypt_shared numberToString P params w = encryptWith numberToString P client params w"
  using assms
  by (auto simp: encrypt_shared_def getLitClient_def isConnected_shared_def
      isLitClientConnected_def)

text \<open>
  Claim C3 (as amended). In both revisions of the wrapper, a call of \<open>encrypt\<close> whose
  policy list is empty or absent (the call without a params object included) fails and
  leaves the state as it was: the SDK's \<open>encrypt\<close> is not invoked and nothing is added
  to the calls made. The error is that of the first check that applies, in the order
  of the code: \<open>Lit Protocol not connected\<close> on a wrapper that is not connected (or, in
  the revision with a client of its own, holds none); else a \<open>TypeError\<close> when
  params is \<open>undefined\<close> or \<open>null\<close>; else \<open>Missing required parameter: data\<close> when the
  data is absent or falsy (\<open>null\<close>, \<open>false\<close>, zero, the empty string); and only else
  \<open>Missing required parameter: accessControlConditions\<close>.
\<close>

theorem encrypt_empty_policy_rejected:
  assumes "emptyPolicy params"
  shows "(\<not> (isConnected w \<and> w_client w \<noteq> None) \<longrightarrow>
            encrypt numberToString P params w = (Inl (Error ''Lit Protocol not connected''), w))
       \<and> (isConnected w \<and> w_client w \<noteq> None \<longrightarrow> params = None \<or> params = Some JNull \<longrightarrow>
            (\<exists>m. encrypt numberToString P params w = (Inl (TypeError m), w)))
       \<and> (isConnected w \<and> w_client w \<noteq> None \<longrightarrow> params = Some p \<longrightarrow> p \<noteq> JNull \<longrightarrow>
            encrypt numberToString P params w =
              (Inl (Error (if truthy (memberOf p ''data'')
                           then ''Missing required parameter: accessControlConditions''
                           else ''Missing required parameter: data'')), w))
       \<and> (\<not> isConnected_shared w \<longrightarrow>
            encrypt_shared numberToString P params w = (Inl (Error ''Lit Protocol not connected''), w))
       \<and> (isConnected_shared w \<longrightarrow> params = None \<or> params = Some JNull \<longrightarrow>
            (\<exists>m. encrypt_shared numberToString P params w = (Inl (TypeError m), w)))
       \<and> (isConnected_shared w \<longrightarrow> params = Some p \<longrightarrow> p \<noteq> JNull \<longrightarrow>
            encrypt_shared numberToString P params w =
              (Inl (Error (if truthy (memberOf p ''data'')
                           then ''Missing required parameter: accessControlConditions''
                           else ''Missing required parameter: data'')), w))
       \<and> adapter_calls (snd (encrypt numberToString P params w)) = adapter_calls w
       \<and> adapter_calls (snd (encrypt_shared numberToString P params w)) = adapter_calls w"
proof -
  have with_client: "\<exists>e. encryptWith numberToString P client params w = (Inl e, w)" for client
  proof (cases "params = None \<or> params = Some JNull")
    case True
    from encryptWith_absent_params [OF True, of numberToString P client w] show ?thesis by auto
  next
    case False
    then obtain q where q: "params = Some q" "q \<noteq> JNull" by auto
    with assms encryptWith_emptyPolicy [of q numberToString P client w] show ?thesis by simp
  qed
  have own: "\<exists>e. encrypt numberToString P params w = (Inl e, w)"
  proof (cases "isConnected w \<and> w_client w \<noteq> None")
    case True
    then obtain client where "w_client w = Some client" by auto
    with True with_client [of client] show ?thesis by (simp add: encrypt_connected)
  next
    case False
    then show ?thesis by (simp add: encrypt_not_connected)
  qed
  have shared: "\<exists>e. encrypt_shared numberToString P params w = (Inl e, w)"
  proof (cases "isConnected_shared w")
    case True
    from encrypt_shared_connected [OF True, of numberToString P params] with_client
    show ?thesis by auto
  next
    case False
    then show ?thesis by (simp add: encrypt_shared_not_connected)
  qed
  show ?thesis
  proof (intro conjI impI)
    assume "\<not> (isConnected w \<and> w_client w \<noteq> None)"
    then show "encrypt numberToString P params w = (Inl (Error ''Lit Protocol not connected''), w)"
      by (rule encrypt_not_connected)
  next
    assume c: "isConnected w \<and> w_client w \<noteq> None" and a: "params = None \<or> params = Some JNull"
    from c obtain client where "w_client w = Some client" by auto
    with c encryptWith_absent_params [OF a, of numberToString P client w]
    show "\<exists>m. encrypt numberToString P params w = (Inl (TypeError m), w)"
      by (simp add: encrypt_connected)
  next
    assume c: "isConnected w \<and> w_client w \<noteq> None" and g: "params = Some p" "p \<noteq> JNull"
    from c obtain client where "w_client w = Some client" by auto
    with c g assms encryptWith_emptyPolicy [of p numberToString P client w]
    show "encrypt numberToString P params w =
              (Inl (Error (if truthy (memberOf p ''data'')
                           then ''Missing required parameter: accessControlConditions''
                           else ''Missing required parameter: data'')), w)"
      by (simp add: encrypt_connected dataGiven_def)
  next
    assume "\<not> isConnected_shared w"
    then show "encrypt_shared numberToString P params w = (Inl (Error ''Lit Protocol not connected''), w)"
      by (rule encrypt_shared_not_connected)
  next
    assume c: "isConnected_shared w" and a: "params = None \<or> params = Some JNull"
    from encrypt_shared_connected [OF c, of numberToString P params] obtain client
      where "encrypt_shared numberToString P params w = encryptWith numberToString P client params w"
      by auto
    with encryptWith_absent_params [OF a, of numberToString P client w]
    show "\<exists>m. encrypt_shared numberToString P params w = (Inl (TypeError m), w)"
      by simp
  next
    assume c: "isConnected_shared w" and g: "params = Some p" "p \<noteq> JNull"
    from encrypt_shared_connected [OF c, of numberToString P params] obtain client
      where "encrypt_shared numberToString P params w = encryptWith numberToString P client params w"
      by auto
    with g assms encryptWith_emptyPolicy [of p numberToString P client w]
    show "encrypt_shared numberToString P params w =
              (Inl (Error (if truthy (memberOf p ''data'')
                           then ''Missing required parameter: accessControlConditions''
                           else ''Missing required parameter: data'')), w)"
      by (simp add: dataGiven_def)
  next
    from own show "adapter_calls (snd (encrypt numberToString P params w)) = adapter_calls w"
      by auto
    from shared
    show "adapter_calls (snd (encrypt_shared numberToString P params w)) = adapter_calls w"
      by auto
  qed
qed

text \<open>A connected wrapper, data given, an empty policy list.\<close>

theorem encrypt_empty_policy_rejected_witness:
  "encrypt (\<lambda>n. ''1'') toyPlatform
     (Some (JObj [(''data'', JStr ''aGVsbG8=''), (''accessControlConditions'', JArr [])]))
     ((createLitWrapper (moduleLoaded\<lparr>litClient := Some 1, authManager := Some 2\<rparr>))
        \<lparr>w_client := Some 1, w_authManager := Some 2, w_isConnected := True\<rparr>)
   = (Inl (Error ''Missing required parameter: accessControlConditions''),
      (createLitWrapper (moduleLoaded\<lparr>litClient := Some 1, authManager := Some 2\<rparr>))
        \<lparr>w_client := Some 1, w_authManager := Some 2, w_isConnected := True\<rparr>)"
  using encrypt_empty_policy_rejected
    [of "Some (JObj [(''data'', JStr ''aGVsbG8=''), (''accessControlConditions'', JArr [])])"
        "(createLitWrapper (moduleLoaded\<lparr>litClient := Some 1, authManager := Some 2\<rparr>))
           \<lparr>w_client := Some 1, w_authManager := Some 2, w_isConnected := True\<rparr>"
        "\<lambda>n. ''1''" toyPlatform
        "JObj [(''data'', JStr ''aGVsbG8=''), (''accessControlConditions'', JArr [])]"]
  by (simp add: emptyPolicy_def memberOf_def truthy_def isConnected_def isLitClientConnected_def
      example_defs)

text \<open>
  Claim C3 as stated fails on a wrapper that is not connected: with an empty policy list
  the call fails with \<open>Lit Protocol not connected\<close>, the error of the first check, in
  both revisions. It fails on a connected wrapper too when the data is absent: the
  error is the one for the missing data, not one for the policy.
\<close>

theorem encrypt_empty_policy_counterexample:
  "encrypt (\<lambda>n. ''1'') toyPlatform
     (Some (JObj [(''data'', JStr ''aGVsbG8=''), (''accessControlConditions'', JArr [])]))
     (createLitWrapper moduleLoaded)
   = (Inl (Error ''Lit Protocol not connected''), createLitWrapper moduleLoaded)
   \<and> encrypt_shared (\<lambda>n. ''1'') toyPlatform
     (Some (JObj [(''data'', JStr ''aGVsbG8=''), (''accessControlConditions'', JArr [])]))
     (createLitWrapper moduleLoaded)
   = (Inl (Error ''Lit Protocol not connected''), createLitWrapper moduleLoaded)
   \<and> encrypt (\<lambda>n. ''1'') toyPlatform
     (Some (JObj [(''accessControlConditions'', JArr [])]))
     ((createLitWrapper (moduleLoaded\<lparr>litClient := Some 1, authManager := Some 2\<rparr>))
        \<lparr>w_client := Some 1, w_authManager := Some 2, w_isConnected := True\<rparr>)
   = (Inl (Error ''Missing required parameter: data''),
      (createLitWrapper (moduleLoaded\<lparr>litClient := Some 1, authManager := Some 2\<rparr>))
        \<lparr>w_client := Some 1, w_authManager := Some 2, w_isConnected := True\<rparr>)"
  by (simp add: encrypt_def encrypt_shared_def encryptWith_def getProperty_def memberOf_def
      andThen_def liftResult_def truthy_def isConnected_def isConnected_shared_def
      isLitClientConnected_def throw_def example_defs)


section \<open>Properties of hybrid encryption and decryption\<close>



lemma zeroed_fill0: "zeroed (fill0 buffer)"
  by (simp add: zeroed_def fill0_def list_all_iff)

lemma initLitClient_aesKeyBuffer:
  "aesKeyBuffer (snd (initLitClient P w)) = aesKeyBuffer w"
  by (auto simp: initLitClient_def initLitClient_call_def initLitClient_resume_cases
      split: option.splits sum.splits)

lemma getAuthContext_state: "snd (getAuthContext P privateKey chainName w) = w"
  by (auto simp: getAuthContext_def split: option.splits sum.splits)

lemma hybridEncryptFile_cases:
  "hybridEncryptFile P file privateKey chainName w =
     (let aesKey = generateAESKey P;
          nonce = generateIV P;
          w0 = w\<lparr>aesKeyBuffer := Some aesKey\<rparr>
      in case aesEncrypt P file aesKey nonce of
           Inl e \<Rightarrow> (Inl e, w0)
         | Inr encryptedFile \<Rightarrow>
             (case initLitClient P w0 of
                (Inl e, w1) \<Rightarrow> (Inl e, w1)
              | (Inr client, w1) \<Rightarrow>
                  (case getWalletAddressFromPrivateKey P privateKey of
                     Inl e \<Rightarrow> (Inl e, w1)
                   | Inr address \<Rightarrow>
                       (let conditions = createOwnerOnlyAccessControlConditions address;
                            unified = toUnifiedAccessControlConditions conditions;
                            w2 = w1\<lparr>adapter_calls := adapter_calls w1 @
                                    [CallEncrypt client aesKey unified chainName]\<rparr>
                        in case lit_encrypt P client aesKey unified chainName of
                             Inl e \<Rightarrow> (Inl e, w2)
                           | Inr litResult \<Rightarrow>
                               (Inr (encryptedFile,
                                     \<lparr>version = ''hybrid-v1'',
                                      encryptedKey = fst litResult,
                                      keyHash = snd litResult,
                                      iv = arrayBufferToBase64 P nonce,
                                      algorithm = ''AES-GCM'',
                                      keyLength = 256,
                                      accessControlConditions = conditions,
                                      chain = chainName,
                                      originalMimeType = None,
                                      originalSize = Some (length file),
                                      originalHash = Some (sha256Hash P file)\<rparr>),
                                w2\<lparr>aesKeyBuffer := map_option fill0 (aesKeyBuffer w2)\<rparr>)))))"
  by (simp add: hybridEncryptFile_def andThen_def modify_def liftResult_def succeed_def
      client_encrypt_def Let_def split: sum.splits prod.splits)

lemma hybridEncryptFile_failure_buffer:
  assumes "fst (hybridEncryptFile P file privateKey chainName w) = Inl e"
  shows "aesKeyBuffer (snd (hybridEncryptFile P file privateKey chainName w)) = Some (generateAESKey P)"
proof -
  have "aesKeyBuffer (snd (initLitClient P (w\<lparr>aesKeyBuffer := Some (generateAESKey P)\<rparr>)))
      = Some (generateAESKey P)"
    by (simp add: initLitClient_aesKeyBuffer)
  with assms show ?thesis
    by (auto simp: hybridEncryptFile_cases Let_def split: sum.splits prod.splits)
qed

lemma hybridEncryptFile_success_buffer:
  assumes "fst (hybridEncryptFile P file privateKey chainName w) = Inr r"
  shows "aesKeyBuffer (snd (hybridEncryptFile P file privateKey chainName w))
           = Some (fill0 (generateAESKey P))"
proof -
  have "aesKeyBuffer (snd (initLitClient P (w\<lparr>aesKeyBuffer := Some (generateAESKey P)\<rparr>)))
      = Some (generateAESKey P)"
    by (simp add: initLitClient_aesKeyBuffer)
  with assms show ?thesis
    by (auto simp: hybridEncryptFile_cases Let_def split: sum.splits prod.splits)
qed


lemma hybridDecryptFile_cases:
  "hybridDecryptFile P encryptedFile metadata privateKey w =
     (let w0 = w\<lparr>aesKeyBuffer := None\<rparr> in
      if version metadata \<noteq> ''hybrid-v1''
      then (Inl (Error (''Unsupported encryption version: '' @ version metadata @ ''. '' @
                        ''Only hybrid-v1 is supported.'')), w0)
      else (case initLitClient P w0 of
              (Inl e, w1) \<Rightarrow> (Inl e, w1)
            | (Inr client, w1) \<Rightarrow>
                (case getAuthContext P privateKey (chain metadata) w1 of
                   (Inl e, w2) \<Rightarrow> (Inl e, w2)
                 | (Inr authContext, w2) \<Rightarrow>
                     (let unified = toUnifiedAccessControlConditions (accessControlConditions metadata);
                          w3 = w2\<lparr>adapter_calls := adapter_calls w2 @
                                  [CallDecrypt client (encryptedKey metadata) (keyHash metadata)
                                     unified authContext (chain metadata)]\<rparr>
                      in case lit_decrypt P client (encryptedKey metadata) (keyHash metadata)
                                unified authContext (chain metadata) of
                           Inl e \<Rightarrow> (Inl e, w3)
                         | Inr aesKey \<Rightarrow>
                             ((case base64ToArrayBuffer P (iv metadata) of
                                 Inl e \<Rightarrow> Inl e
                               | Inr nonce \<Rightarrow>
                                   (case aesDecrypt P encryptedFile aesKey nonce of
                                      Inl e \<Rightarrow> Inl e
                                    | Inr decryptedData \<Rightarrow>
                                        (case originalHash metadata of
                                           None \<Rightarrow> Inr decryptedData
                                         | Some expected \<Rightarrow>
                                             if expected = [] then Inr decryptedData
                                             else if sha256Hash P decryptedData \<noteq> expected
                                             then Inl (Error ''File integrity check failed. The file may have been corrupted or tampered with.'')
                                             else Inr decryptedData))),
                              w3\<lparr>aesKeyBuffer := Some (fill0 aesKey)\<rparr>)))))"
  by (simp add: hybridDecryptFile_def andThen_def modify_def liftResult_def succeed_def throw_def
      tryFinally_def client_decrypt_def Let_def split: sum.splits prod.splits option.splits)

lemma hybridDecryptFile_buffer:
  "(case aesKeyBuffer (snd (hybridDecryptFile P encryptedFile metadata privateKey w)) of
      None \<Rightarrow> True | Some buffer \<Rightarrow> zeroed buffer)"
proof -
  have a: "aesKeyBuffer (snd (initLitClient P (w\<lparr>aesKeyBuffer := None\<rparr>))) = None"
    by (simp add: initLitClient_aesKeyBuffer)
  have b: "snd (getAuthContext P privateKey (chain metadata) w1) = w1" for w1 :: "'a crypto_state_scheme"
    by (rule getAuthContext_state)
  show ?thesis
    using a b [of "snd (initLitClient P (w\<lparr>aesKeyBuffer := None\<rparr>))"]
    by (auto simp: hybridDecryptFile_cases Let_def zeroed_fill0
        split: sum.splits prod.splits option.splits)
qed


lemma charCode_round_trip: "map charCodeAt (map fromCharCode bytes) = bytes"
proof -
  have "charCodeAt (fromCharCode b) = b" for b :: byte
  proof -
    have "unat b < 256" using unsigned_less [of b, where 'a = nat] by simp
    then show ?thesis by (simp add: charCodeAt_def fromCharCode_def)
  qed
  then show ?thesis by (simp add: map_idI)
qed

lemma base64_round_trip:
  assumes "\<forall>binary. atob P (btoa P binary) = Inr binary"
  shows "base64ToArrayBuffer P (arrayBufferToBase64 P bytes) = Inr bytes"
  using assms charCode_round_trip [of bytes]
  by (simp add: base64ToArrayBuffer_def arrayBufferToBase64_def del: map_map)

lemma aes_round_trip:
  assumes "\<forall>key cryptoKey nonce data sealed.
             importKey P key = Inr cryptoKey \<longrightarrow> subtle_encrypt P cryptoKey nonce data = Inr sealed \<longrightarrow>
             subtle_decrypt P cryptoKey nonce sealed = Inr data"
    and "aesEncrypt P data key nonce = Inr sealed"
  shows "aesDecrypt P sealed key nonce = Inr data"
proof (cases "importKey P key")
  case (Inl e)
  with assms(2) show ?thesis by (simp add: aesEncrypt_def)
next
  case (Inr cryptoKey)
  with assms(2) have "subtle_encrypt P cryptoKey nonce data = Inr sealed"
    by (simp add: aesEncrypt_def)
  with assms(1) Inr have "subtle_decrypt P cryptoKey nonce sealed = Inr data" by blast
  with Inr show ?thesis by (simp add: aesDecrypt_def)
qed

lemma getAuthContext_success:
  assumes "getAuthContext P privateKey chainName w = (Inr authContext, w')"
  shows "\<exists>client manager. litClient w = Some client \<and> authManager w = Some manager"
  using assms by (auto simp: getAuthContext_def split: option.splits)

lemma getAuthContext_buffer:
  "fst (getAuthContext P privateKey chainName (w\<lparr>aesKeyBuffer := b\<rparr>))
     = fst (getAuthContext P privateKey chainName w)"
  by (auto simp: getAuthContext_def split: option.splits sum.splits)

lemma initLitClient_existing:
  assumes "litClient w = Some client" "authManager w = Some manager"
  shows "initLitClient P w = (Inr client, w)"
  using assms by (simp add: initLitClient_def initLitClient_call_def)

lemma hybridEncryptFile_success:
  assumes "hybridEncryptFile P file privateKey chainName w = (Inr (encryptedFile, metadata), w')"
  shows "aesEncrypt P file (generateAESKey P) (generateIV P) = Inr encryptedFile"
    and "version metadata = ''hybrid-v1''"
    and "iv metadata = arrayBufferToBase64 P (generateIV P)"
    and "originalHash metadata = Some (sha256Hash P file)"
    and "originalSize metadata = Some (length file)"
    and "chain metadata = chainName"
    and "\<exists>address. accessControlConditions metadata = createOwnerOnlyAccessControlConditions address"
  using assms
  by (auto simp: hybridEncryptFile_cases Let_def split: sum.splits prod.splits)

lemma hybridEncryptFile_wraps_key:
  assumes "hybridEncryptFile P file privateKey chainName w = (Inr (encryptedFile, metadata), w')"
  shows "\<exists>client. last (adapter_calls w') =
           CallEncrypt client (generateAESKey P)
             (toUnifiedAccessControlConditions (accessControlConditions metadata)) chainName"
  using assms
  by (auto simp: hybridEncryptFile_cases Let_def split: sum.splits prod.splits)

text \<open>
  Claim C2, evaluated on the code. \<open>hybridDecryptFile\<close> leaves no key behind: whenever
  the call has obtained a key buffer, every byte of it is zero when the call returns or
  throws. \<open>hybridEncryptFile\<close> zeroes its key buffer when it returns. When it throws (the
  local sealing, the client initialization, the wallet derivation or the SDK's \<open>encrypt\<close>
  failed), the buffer still holds the generated key: the \<open>fill(0)\<close> is the last
  statement before the \<open>return\<close> and no \<open>finally\<close> guards it.
\<close>

theorem hybrid_key_buffer_after_call:
  "(fst (hybridEncryptFile P file privateKey chainName w) = Inr r \<longrightarrow>
      aesKeyBuffer (snd (hybridEncryptFile P file privateKey chainName w))
        = Some (fill0 (generateAESKey P))
      \<and> zeroed (fill0 (generateAESKey P)))
   \<and> (fst (hybridEncryptFile P file privateKey chainName w) = Inl e \<longrightarrow>
      aesKeyBuffer (snd (hybridEncryptFile P file privateKey chainName w))
        = Some (generateAESKey P))
   \<and> (case aesKeyBuffer (snd (hybridDecryptFile P encryptedFile metadata identity w)) of
        None \<Rightarrow> True
      | Some buffer \<Rightarrow> zeroed buffer)"
  using hybridEncryptFile_success_buffer [of P "file" privateKey chainName w r]
    hybridEncryptFile_failure_buffer [of P "file" privateKey chainName w e]
    hybridDecryptFile_buffer [of P encryptedFile metadata identity w]
    zeroed_fill0 [of "generateAESKey P"]
  by blast

text \<open>
  The SDK's \<open>encrypt\<close> rejects: \<open>hybridEncryptFile\<close> throws and the 32 key bytes, each 42,
  are still in the buffer.
\<close>

theorem hybrid_key_buffer_after_call_witness:
  "fst (hybridEncryptFile
          (toyPlatform\<lparr>lit_encrypt := (\<lambda>client key conditions chainName. Inl (Error ''network unreachable''))\<rparr>)
          (map charCodeAt ''Hello, Haven!'')
          ''0x0123456789abcdef0123456789abcdef0123456789abcdef0123456789abcdef'' ''ethereum''
          moduleLoaded)
     = Inl (Error ''network unreachable'')
   \<and> aesKeyBuffer (snd (hybridEncryptFile
          (toyPlatform\<lparr>lit_encrypt := (\<lambda>client key conditions chainName. Inl (Error ''network unreachable''))\<rparr>)
          (map charCodeAt ''Hello, Haven!'')
          ''0x0123456789abcdef0123456789abcdef0123456789abcdef0123456789abcdef'' ''ethereum''
          moduleLoaded))
     = Some (replicate 32 42)
   \<and> \<not> zeroed (replicate 32 42)"
proof -
  have failed: "fst (hybridEncryptFile
          (toyPlatform\<lparr>lit_encrypt := (\<lambda>client key conditions chainName. Inl (Error ''network unreachable''))\<rparr>)
          (map charCodeAt ''Hello, Haven!'')
          ''0x0123456789abcdef0123456789abcdef0123456789abcdef0123456789abcdef'' ''ethereum''
          moduleLoaded)
     = Inl (Error ''network unreachable'')"
    by (simp add: hybridEncryptFile_cases Let_def initLitClient_def initLitClient_call_def
        initLitClient_resume_cases getWalletAddressFromPrivateKey_def aesEncrypt_def
        generateAESKey_def generateIV_def AES_KEY_SIZE_def AES_IV_SIZE_def example_defs)
  have key: "generateAESKey
          (toyPlatform\<lparr>lit_encrypt := (\<lambda>client key conditions chainName. Inl (Error ''network unreachable''))\<rparr>)
     = replicate 32 42"
    by (simp add: generateAESKey_def AES_KEY_SIZE_def toyPlatform_def)
  have "\<not> zeroed (replicate 32 42)"
    by (simp add: zeroed_def list_all_iff)
  with failed key show ?thesis
    using hybrid_key_buffer_after_call
      [of "toyPlatform\<lparr>lit_encrypt := (\<lambda>client key conditions chainName. Inl (Error ''network unreachable''))\<rparr>"
          "map charCodeAt ''Hello, Haven!''"
          "''0x0123456789abcdef0123456789abcdef0123456789abcdef0123456789abcdef''" "''ethereum''"
          moduleLoaded _ "Error ''network unreachable''"]
    by simp
qed

text \<open>
  Claim C1. Let \<open>hybridEncryptFile\<close> return a ciphertext and metadata for a plaintext.
  If the platform's AES-GCM opens what it sealed under the same key and nonce, \<open>atob\<close>
  inverts \<open>btoa\<close>, the identity obtains an auth context, and the SDK's \<open>decrypt\<close> of the
  wrapped key under the metadata's policy returns the key bytes that were generated, then
  \<open>hybridDecryptFile\<close> of that ciphertext under that metadata, from any module state in
  which the identity authenticates, returns exactly the plaintext: the comparison with
  \<open>originalHash\<close>, which is the hash of the plaintext, passes. The policy in the metadata
  is the owner-only policy that \<open>hybridEncryptFile\<close> builds, which is never empty; the
  last call the encryption made to the SDK wrapped exactly the generated key under that
  policy; and the key buffer of the decryption ends zeroed.
\<close>

theorem hybrid_round_trip:
  assumes enc: "hybridEncryptFile P file privateKey chainName w = (Inr (encryptedFile, metadata), w')"
    and aead: "\<forall>key cryptoKey nonce data sealed.
             importKey P key = Inr cryptoKey \<longrightarrow> subtle_encrypt P cryptoKey nonce data = Inr sealed \<longrightarrow>
             subtle_decrypt P cryptoKey nonce sealed = Inr data"
    and base64: "\<forall>binary. atob P (btoa P binary) = Inr binary"
    and auth: "getAuthContext P identity (chain metadata) v = (Inr authContext, v)"
    and unwrap: "\<forall>client. litClient v = Some client \<longrightarrow>
             lit_decrypt P client (encryptedKey metadata) (keyHash metadata)
               (toUnifiedAccessControlConditions (accessControlConditions metadata))
               authContext (chain metadata) = Inr (generateAESKey P)"
  shows "fst (hybridDecryptFile P encryptedFile metadata identity v) = Inr file
       \<and> originalHash metadata = Some (sha256Hash P file)
       \<and> originalSize metadata = Some (length file)
       \<and> accessControlConditions metadata \<noteq> []
       \<and> (\<exists>client. last (adapter_calls w') =
             CallEncrypt client (generateAESKey P)
               (toUnifiedAccessControlConditions (accessControlConditions metadata)) chainName)
       \<and> aesKeyBuffer (snd (hybridDecryptFile P encryptedFile metadata identity v))
           = Some (fill0 (generateAESKey P))"
proof -
  note facts = hybridEncryptFile_success [OF enc]
  obtain client manager where cm: "litClient v = Some client" "authManager v = Some manager"
    using getAuthContext_success [OF auth] by blast
  let ?v0 = "v\<lparr>aesKeyBuffer := None\<rparr>"
  have init: "initLitClient P ?v0 = (Inr client, ?v0)"
    using cm by (simp add: initLitClient_existing)
  have "fst (getAuthContext P identity (chain metadata) ?v0) = Inr authContext"
    using auth by (simp add: getAuthContext_buffer)
  then have ctx: "getAuthContext P identity (chain metadata) ?v0 = (Inr authContext, ?v0)"
    using getAuthContext_state [of P identity "chain metadata" ?v0]
    by (cases "getAuthContext P identity (chain metadata) ?v0") simp
  have key: "lit_decrypt P client (encryptedKey metadata) (keyHash metadata)
               (toUnifiedAccessControlConditions (accessControlConditions metadata))
               authContext (chain metadata) = Inr (generateAESKey P)"
    using unwrap cm by blast
  have nonce: "base64ToArrayBuffer P (iv metadata) = Inr (generateIV P)"
    using facts(3) base64 by (simp add: base64_round_trip)
  have plain: "aesDecrypt P encryptedFile (generateAESKey P) (generateIV P) = Inr file"
    using aead facts(1) by (rule aes_round_trip)
  have result: "fst (hybridDecryptFile P encryptedFile metadata identity v) = Inr file"
    and buffer: "aesKeyBuffer (snd (hybridDecryptFile P encryptedFile metadata identity v))
           = Some (fill0 (generateAESKey P))"
    using init ctx key nonce plain facts(2) facts(4)
    by (simp_all add: hybridDecryptFile_cases Let_def)
  from facts(7) have policy: "accessControlConditions metadata \<noteq> []"
    by (auto simp: createOwnerOnlyAccessControlConditions_def)
  have wrapped: "\<exists>client. last (adapter_calls w') =
             CallEncrypt client (generateAESKey P)
               (toUnifiedAccessControlConditions (accessControlConditions metadata)) chainName"
    using enc by (rule hybridEncryptFile_wraps_key)
  from result buffer policy wrapped facts(4) facts(5) show ?thesis by simp
qed

lemma toy_aead:
  "\<forall>key cryptoKey nonce data sealed.
     importKey toyPlatform key = Inr cryptoKey \<longrightarrow>
     subtle_encrypt toyPlatform cryptoKey nonce data = Inr sealed \<longrightarrow>
     subtle_decrypt toyPlatform cryptoKey nonce sealed = Inr data"
  by (auto simp: toyPlatform_def split: if_splits)

lemma toy_key: "generateAESKey toyPlatform = replicate 32 42"
  by (simp add: generateAESKey_def AES_KEY_SIZE_def toyPlatform_def)

lemma toy_account:
  "createViemAccount toyPlatform
     ''0x0123456789abcdef0123456789abcdef0123456789abcdef0123456789abcdef'' = Inr 3"
proof -
  have "regexTest hexRegex ''0x0123456789abcdef0123456789abcdef0123456789abcdef0123456789abcdef''"
    by code_simp
  moreover have "trim ''0x0123456789abcdef0123456789abcdef0123456789abcdef0123456789abcdef''
      = ''0x0123456789abcdef0123456789abcdef0123456789abcdef0123456789abcdef''"
    by (simp add: trim_def isWhiteSpace_def)
  ultimately show ?thesis
    by (simp add: createViemAccount_def normalizePrivateKey_viem_def startsWith_def toyPlatform_def)
qed

lemma toy_encrypt:
  "\<exists>encryptedFile metadata w'.
     hybridEncryptFile toyPlatform (map charCodeAt ''Hello, Haven!'')
       ''0x0123456789abcdef0123456789abcdef0123456789abcdef0123456789abcdef'' ''ethereum''
       moduleLoaded = (Inr (encryptedFile, metadata), w')
     \<and> length encryptedFile = 29 \<and> litClient w' = Some 1 \<and> authManager w' = Some 2
     \<and> encryptedKey metadata = map fromCharCode (replicate 32 42)
     \<and> chain metadata = ''ethereum''"
  by (simp add: hybridEncryptFile_cases Let_def initLitClient_def initLitClient_call_def
      initLitClient_resume_cases getWalletAddressFromPrivateKey_def aesEncrypt_def
      generateAESKey_def generateIV_def AES_KEY_SIZE_def AES_IV_SIZE_def example_defs)

text \<open>
  The thirteen bytes of \<open>Hello, Haven!\<close> on the small platform: the ciphertext has
  13 + 16 = 29 bytes, the metadata records the size 13, and decryption returns them.
\<close>

theorem hybrid_round_trip_witness:
  "fst (hybridDecryptFile toyPlatform
     (fst (projr (fst (hybridEncryptFile toyPlatform (map charCodeAt ''Hello, Haven!'')
        ''0x0123456789abcdef0123456789abcdef0123456789abcdef0123456789abcdef'' ''ethereum''
        moduleLoaded))))
     (snd (projr (fst (hybridEncryptFile toyPlatform (map charCodeAt ''Hello, Haven!'')
        ''0x0123456789abcdef0123456789abcdef0123456789abcdef0123456789abcdef'' ''ethereum''
        moduleLoaded))))
     ''0x0123456789abcdef0123456789abcdef0123456789abcdef0123456789abcdef''
     (snd (hybridEncryptFile toyPlatform (map charCodeAt ''Hello, Haven!'')
        ''0x0123456789abcdef0123456789abcdef0123456789abcdef0123456789abcdef'' ''ethereum''
        moduleLoaded)))
   = Inr (map charCodeAt ''Hello, Haven!'')
   \<and> length (fst (projr (fst (hybridEncryptFile toyPlatform (map charCodeAt ''Hello, Haven!'')
        ''0x0123456789abcdef0123456789abcdef0123456789abcdef0123456789abcdef'' ''ethereum''
        moduleLoaded)))) = 29
   \<and> originalSize (snd (projr (fst (hybridEncryptFile toyPlatform (map charCodeAt ''Hello, Haven!'')
        ''0x0123456789abcdef0123456789abcdef0123456789abcdef0123456789abcdef'' ''ethereum''
        moduleLoaded)))) = Some 13"
proof -
  obtain encryptedFile metadata w' where
    enc: "hybridEncryptFile toyPlatform (map charCodeAt ''Hello, Haven!'')
       ''0x0123456789abcdef0123456789abcdef0123456789abcdef0123456789abcdef'' ''ethereum''
       moduleLoaded = (Inr (encryptedFile, metadata), w')"
    and len: "length encryptedFile = 29"
    and cm: "litClient w' = Some 1" "authManager w' = Some 2"
    and wrapped: "encryptedKey metadata = map fromCharCode (replicate 32 42)"
    and ch: "chain metadata = ''ethereum''"
    using toy_encrypt by blast
  have auth: "getAuthContext toyPlatform
      ''0x0123456789abcdef0123456789abcdef0123456789abcdef0123456789abcdef''
      (chain metadata) w' = (Inr 4, w')"
    using cm by (simp add: getAuthContext_def toy_account) (simp add: toyPlatform_def)
  have unwrap: "\<forall>client. litClient w' = Some client \<longrightarrow>
      lit_decrypt toyPlatform client (encryptedKey metadata) (keyHash metadata)
        (toUnifiedAccessControlConditions (accessControlConditions metadata)) 4 (chain metadata)
      = Inr (generateAESKey toyPlatform)"
    using charCode_round_trip [of "replicate 32 42"]
    by (simp add: wrapped toy_key del: map_map replicate.simps map_replicate) (simp add: toyPlatform_def del: map_map replicate.simps map_replicate)
  have base64: "\<forall>binary. atob toyPlatform (btoa toyPlatform binary) = Inr binary"
    by (simp add: toyPlatform_def)
  from hybrid_round_trip [OF enc toy_aead base64 auth unwrap] enc len show ?thesis
    by simp
qed


end
